theory Spec2Isabelle
  imports Complex_Main "HOL-Library.Word" "HOL-Library.Signed_Division"
begin

section \<open>Pixel buffers and geometry (native\_decoder.cpp, anonymous namespace)\<close>

text \<open>
  A grayscale buffer is a row-major list of 8-bit samples together with the \<open>int\<close> width
  and height the C++ code passes beside the pointer. C++ \<open>int\<close> is modelled by HOL \<open>int\<close>:
  every buffer of the pipeline comes from a Java array, whose length fits a 32-bit
  \<open>jsize\<close>, so the index arithmetic \<open>y * width + x\<close> never leaves the \<open>int\<close> range.
  A \<open>for (int i = 0; i < n; i++)\<close> loop runs over \<open>[0..n - 1]\<close>; a write \<open>dst[i] = v\<close> is
  the list update \<open>dst[nat i := v]\<close> and a read \<open>src[i]\<close> is \<open>src ! nat i\<close> (the indices
  are in range whenever the buffer holds \<open>width * height\<close> samples).
\<close>

type_synonym byte = "8 word"

record RectI =
  r_left :: int
  r_top :: int
  r_right :: int
  r_bottom :: int

text \<open>\<open>std::clamp(v, lo, hi)\<close>, as the standard library computes it.\<close>

definition clamp :: "int \<Rightarrow> int \<Rightarrow> int \<Rightarrow> int" where
  "clamp v lo hi = (if v < lo then lo else if hi < v then hi else v)"

definition clampRect :: "RectI \<Rightarrow> int \<Rightarrow> int \<Rightarrow> RectI" where
  "clampRect r width height =
     (let l = clamp (r_left r) 0 width;
          rr = clamp (r_right r) 0 width;
          t = clamp (r_top r) 0 height;
          b = clamp (r_bottom r) 0 height;
          (l, rr) = (if rr < l then (rr, l) else (l, rr));
          (t, b) = (if b < t then (b, t) else (t, b))
      in \<lparr>r_left = l, r_top = t, r_right = rr, r_bottom = b\<rparr>)"

text \<open>\<open>std::copy(row, row + n, \<dots>)\<close> reads the \<open>n\<close> samples that start at offset \<open>off\<close>.\<close>

definition slice :: "byte list \<Rightarrow> int \<Rightarrow> int \<Rightarrow> byte list" where
  "slice src off n = take (nat n) (drop (nat off) src)"

definition cropGray :: "byte list \<Rightarrow> int \<Rightarrow> int \<Rightarrow> RectI \<Rightarrow> byte list \<times> int \<times> int" where
  "cropGray src width height roi0 =
     (let roi = clampRect roi0 width height;
          outW = max 0 (r_right roi - r_left roi);
          outH = max 0 (r_bottom roi - r_top roi);
          dst = concat (map (\<lambda>y. slice src ((r_top roi + y) * width + r_left roi) outW)
                            [0..outH - 1])
      in (dst, outW, outH))"

text \<open>The C++ remainder \<open>%\<close> truncates towards zero: it is \<open>smod\<close>.\<close>

definition normRot :: "int \<Rightarrow> int" where
  "normRot rotationDeg = ((rotationDeg smod 360) + 360) smod 360"

text \<open>The three nested copy loops of \<open>rotateGray\<close>, one per quadrant.\<close>

definition rot180_loop :: "byte list \<Rightarrow> int \<Rightarrow> int \<Rightarrow> byte list \<Rightarrow> byte list" where
  "rot180_loop src width height dst0 =
     fold (\<lambda>y. fold (\<lambda>x dst.
             dst[nat ((height - 1 - y) * width + (width - 1 - x)) := src ! nat (y * width + x)])
           [0..width - 1])
       [0..height - 1] dst0"

definition rot90_loop :: "byte list \<Rightarrow> int \<Rightarrow> int \<Rightarrow> int \<Rightarrow> byte list \<Rightarrow> byte list" where
  "rot90_loop src width height outW dst0 =
     fold (\<lambda>y. fold (\<lambda>x dst.
             (let nx = height - 1 - y; ny = x
              in dst[nat (ny * outW + nx) := src ! nat (y * width + x)]))
           [0..width - 1])
       [0..height - 1] dst0"

definition rot270_loop :: "byte list \<Rightarrow> int \<Rightarrow> int \<Rightarrow> int \<Rightarrow> byte list \<Rightarrow> byte list" where
  "rot270_loop src width height outW dst0 =
     fold (\<lambda>y. fold (\<lambda>x dst.
             (let nx = y; ny = width - 1 - x
              in dst[nat (ny * outW + nx) := src ! nat (y * width + x)]))
           [0..width - 1])
       [0..height - 1] dst0"

definition rotateGray :: "byte list \<Rightarrow> int \<Rightarrow> int \<Rightarrow> int \<Rightarrow> byte list \<times> int \<times> int" where
  "rotateGray src width height rotationDeg =
     (let rot = normRot rotationDeg in
      if rot = 0 then (take (nat width * nat height) src, width, height)
      else if rot = 180 then
        (rot180_loop src width height (replicate (nat width * nat height) 0), width, height)
      else if rot = 90 \<or> rot = 270 then
        (let outW = height; outH = width;
             dst0 = replicate (nat outW * nat outH) 0
         in if rot = 90 then (rot90_loop src width height outW dst0, outW, outH)
            else (rot270_loop src width height outW dst0, outW, outH))
      else (take (nat width * nat height) src, width, height))"

text \<open>\<open>std::copy(srow, srow + n, drow)\<close> into the destination at offset \<open>off\<close>.\<close>

definition copy_into :: "byte list \<Rightarrow> int \<Rightarrow> byte list \<Rightarrow> byte list" where
  "copy_into dst off row = take (nat off) dst @ row @ drop (nat off + length row) dst"

definition addWhiteBorder :: "byte list \<Rightarrow> int \<Rightarrow> int \<Rightarrow> int \<Rightarrow> byte list \<times> int \<times> int" where
  "addWhiteBorder src width height pad =
     (if pad \<le> 0 then (take (nat width * nat height) src, width, height)
      else
        (let outW = width + pad * 2;
             outH = height + pad * 2;
             dst0 = replicate (nat outW * nat outH) (255 :: byte)
         in (fold (\<lambda>y dst. copy_into dst ((y + pad) * outW + pad) (slice src (y * width) width))
               [0..height - 1] dst0,
             outW, outH)))"

definition addWhiteBorderPerSide ::
  "byte list \<Rightarrow> int \<Rightarrow> int \<Rightarrow> int \<Rightarrow> int \<Rightarrow> int \<Rightarrow> int \<Rightarrow> byte list \<times> int \<times> int" where
  "addWhiteBorderPerSide src width height padLeft0 padTop0 padRight0 padBottom0 =
     (let padLeft = max 0 padLeft0;
          padTop = max 0 padTop0;
          padRight = max 0 padRight0;
          padBottom = max 0 padBottom0;
          outW = width + padLeft + padRight;
          outH = height + padTop + padBottom;
          dst0 = replicate (nat outW * nat outH) (255 :: byte)
      in (fold (\<lambda>y dst. copy_into dst ((y + padTop) * outW + padLeft) (slice src (y * width) width))
            [0..height - 1] dst0,
          outW, outH))"

section \<open>Quiet-zone estimator\<close>

record Margins =
  m_top :: int
  m_bottom :: int
  m_left :: int
  m_right :: int

text \<open>The values of \<open>i\<close> in \<open>for (int i = 0; i < n; i += s)\<close>, for a step \<open>s \<ge> 1\<close>.\<close>

definition range_by :: "int \<Rightarrow> int \<Rightarrow> int list" where
  "range_by n s = map (\<lambda>k. k * s) [0..(n - 1) div s]"

text \<open>
  The statistics test shared by \<open>isMostlyWhiteRow\<close> and \<open>isMostlyWhiteCol\<close>, on the sampled
  values \<open>vs\<close>. The C++ code computes mean, variance and dark ratio in \<open>double\<close> from a
  32-bit \<open>int\<close> sum; here they are exact rationals over an unbounded sum, and \<open>std \<le> c\<close>
  (a square root) is written \<open>var \<le> c\<^sup>2\<close>. This is an approximation of the source: the two
  differ where a \<open>double\<close> rounding error moves a value across a threshold, and on rows of
  more than about 16.8 million samples, where the \<open>int\<close> sum overflows. Nothing proved below
  depends on the outcome of this test, except on an all-white buffer, where every
  intermediate value is a small integer and the two agree.
\<close>

definition whiteStats :: "int list \<Rightarrow> int \<Rightarrow> bool" where
  "whiteStats vs n =
     (let dark = int (length (filter (\<lambda>v. v < 180) vs));
          sum = sum_list vs;
          sumSq = sum_list (map (\<lambda>v. v * v) vs);
          d = max 1 n;
          mean = (of_int sum / of_int d :: rat);
          meanSq = (of_int sumSq / of_int d :: rat);
          var = max 0 (meanSq - mean * mean);
          darkRatio = (of_int dark / of_int d :: rat)
      in if mean \<ge> 205 \<and> var \<le> 22 * 22 \<and> darkRatio \<le> 10 / 100 then True
         else if mean \<ge> 195 \<and> var \<le> 32 * 32 \<and> darkRatio \<le> 12 / 100 then True
         else mean \<ge> 185 \<and> var \<le> 42 * 42 \<and> darkRatio \<le> 8 / 100)"

text \<open>\<open>isMostlyWhiteRow(src + off, width)\<close>: the row that starts at offset \<open>off\<close>.\<close>

definition isMostlyWhiteRow :: "byte list \<Rightarrow> int \<Rightarrow> int \<Rightarrow> bool" where
  "isMostlyWhiteRow src off width =
     whiteStats (map (\<lambda>x. uint (src ! nat (off + x))) (range_by width 2)) ((width + 1) sdiv 2)"

definition isMostlyWhiteCol :: "byte list \<Rightarrow> int \<Rightarrow> int \<Rightarrow> int \<Rightarrow> bool" where
  "isMostlyWhiteCol src width height x =
     whiteStats (map (\<lambda>y. uint (src ! nat (y * width + x))) (range_by height 2)) ((height + 1) sdiv 2)"

text \<open>
  Each of the four loops of \<open>measureWhiteMargins\<close> counts until its first \<open>break\<close>: the count
  is the length of the longest white prefix of the positions visited, in visiting order.
\<close>

definition measureWhiteMargins :: "byte list \<Rightarrow> int \<Rightarrow> int \<Rightarrow> Margins" where
  "measureWhiteMargins src width height =
     (let top = int (length (takeWhile (\<lambda>y. isMostlyWhiteRow src (y * width) width) [0..height - 1]));
          bottom = int (length (takeWhile (\<lambda>y. isMostlyWhiteRow src (y * width) width)
                                   (rev [0..height - 1])));
          left = 2 * int (length (takeWhile (\<lambda>x. isMostlyWhiteCol src width height x)
                                    (range_by width 2)));
          left = min left width;
          right = 2 * int (length (takeWhile (\<lambda>x. isMostlyWhiteCol src width height x)
                                     (map (\<lambda>x. width - 1 - x) (range_by width 2))));
          right = min right width
      in \<lparr>m_top = top, m_bottom = bottom, m_left = left, m_right = right\<rparr>)"

section \<open>Bilinear rescaling\<close>

text \<open>\<open>std::lround\<close>: round to nearest, halves away from zero.\<close>

definition lround :: "rat \<Rightarrow> int" where
  "lround q = (if 0 \<le> q then \<lfloor>q + 1 / 2\<rfloor> else - \<lfloor>- q + 1 / 2\<rfloor>)"

text \<open>
  \<open>resizeGrayBilinear\<close> fills \<open>dst\<close> row by row, every cell once. The interpolation weights
  are \<open>double\<close> in the source and exact rationals here: an approximation, which can differ
  from the source by one grey level where the \<open>double\<close> result falls on the other side of a
  rounding boundary. The function only shapes images handed to the decode primitive, and
  nothing proved below depends on the samples it returns.
\<close>

definition resizeGrayBilinear :: "byte list \<Rightarrow> int \<Rightarrow> int \<Rightarrow> int \<Rightarrow> int \<Rightarrow> byte list" where
  "resizeGrayBilinear src srcW srcH dstW0 dstH0 =
     (let dstW = max 1 dstW0; dstH = max 1 dstH0 in
      if srcW \<le> 1 \<or> srcH \<le> 1 \<or> dstW = 1 \<or> dstH = 1 then
        concat (map (\<lambda>y.
          (let sy = (if srcH \<le> 1 then 0 else (y * (srcH - 1)) sdiv max 1 (dstH - 1))
           in map (\<lambda>x.
                (let sx = (if srcW \<le> 1 then 0 else (x * (srcW - 1)) sdiv max 1 (dstW - 1))
                 in src ! nat (sy * srcW + sx)))
              [0..dstW - 1]))
          [0..dstH - 1])
      else
        (let xScale = (of_int (srcW - 1) / of_int (max 1 (dstW - 1)) :: rat);
             yScale = (of_int (srcH - 1) / of_int (max 1 (dstH - 1)) :: rat)
         in concat (map (\<lambda>y.
              (let fy = of_int y * yScale;
                   y0 = clamp \<lfloor>fy\<rfloor> 0 (srcH - 1);
                   y1 = min (srcH - 1) (y0 + 1);
                   wy = fy - of_int y0
               in map (\<lambda>x.
                    (let fx = of_int x * xScale;
                         x0 = clamp \<lfloor>fx\<rfloor> 0 (srcW - 1);
                         x1 = min (srcW - 1) (x0 + 1);
                         wx = fx - of_int x0;
                         p00 = uint (src ! nat (y0 * srcW + x0));
                         p10 = uint (src ! nat (y0 * srcW + x1));
                         p01 = uint (src ! nat (y1 * srcW + x0));
                         p11 = uint (src ! nat (y1 * srcW + x1));
                         a = of_int p00 + of_int (p10 - p00) * wx;
                         b = of_int p01 + of_int (p11 - p01) * wx;
                         v = lround (a + (b - a) * wy)
                     in (word_of_int (clamp v 0 255) :: byte)))
                  [0..dstW - 1]))
              [0..dstH - 1])))"

section \<open>Synthetic-image detection\<close>

text \<open>
  \<open>looksSyntheticQR\<close>; the null-pointer test of the source is on a buffer that the caller
  has just built, so the model takes the buffer itself. The final ratio test
  \<open>hits / n \<ge> 0.985\<close> compares a correctly rounded quotient of two small integers with the
  \<open>double\<close> nearest to 0.985, which decides as the exact comparison does.
\<close>

definition looksSyntheticQR :: "byte list \<Rightarrow> int \<Rightarrow> int \<Rightarrow> bool" where
  "looksSyntheticQR src width height =
     (if width \<le> 0 \<or> height \<le> 0 then False
      else
        (let stepX = max 1 (width sdiv 64);
             stepY = max 1 (height sdiv 64);
             vs = concat (map (\<lambda>y. map (\<lambda>x. src ! nat (y * width + x)) (range_by width stepX))
                              (range_by height stepY));
             n = int (length vs);
             hits = int (length (filter (\<lambda>v. v = 0 \<or> v = 255 \<or> v = 127) vs))
         in n > 0 \<and> (of_int hits / of_int n :: rat) \<ge> 985 / 1000))"

definition mapUnknownValue :: "byte list \<Rightarrow> int \<Rightarrow> int \<Rightarrow> byte \<Rightarrow> byte \<Rightarrow> byte list" where
  "mapUnknownValue src width height unknownValue mappedTo =
     map (\<lambda>v. if v = unknownValue then mappedTo else v) (take (nat width * nat height) src)"

section \<open>The external decode primitive, at its interface\<close>

text \<open>
  \<open>ZXing::ReadBarcode\<close> is not part of this repository. It is a parameter \<open>rd\<close> of every
  function that calls it, and the records below carry what the pipeline reads from its
  result and writes into its options. A default-constructed \<open>ZXing::Barcode()\<close> is
  \<open>emptyBarcode\<close>; default-constructed \<open>ZXing::ReaderOptions\<close> are \<open>defaultOptions\<close>.
\<close>

datatype BarcodeFormat = FormatNone | QRCode | MicroQRCode

datatype ErrorType = ErrorNone | Format | Checksum | Unsupported

datatype Binarizer = LocalAverage | GlobalHistogram | FixedThreshold | BoolCast

record PointI =
  p_x :: int
  p_y :: int

record Position =
  topLeft :: PointI
  topRight :: PointI
  bottomRight :: PointI
  bottomLeft :: PointI

record Barcode =
  format :: BarcodeFormat
  isValid :: bool
  errorType :: ErrorType
  errorMsg :: string
  errorLocation :: string
  textOf :: string
  bytes :: "byte list"
  hasECI :: bool
  bytesECI :: "byte list"
  version :: string
  ecLevel :: string
  symbologyIdentifier :: string
  isMirrored :: bool
  isInverted :: bool
  orientation :: int
  position :: Position

definition emptyBarcode :: Barcode where
  "emptyBarcode =
     \<lparr>format = FormatNone, isValid = False, errorType = ErrorNone, errorMsg = [],
      errorLocation = [], textOf = [], bytes = [], hasECI = False, bytesECI = [], version = [],
      ecLevel = [], symbologyIdentifier = [], isMirrored = False, isInverted = False,
      orientation = 0,
      position = \<lparr>topLeft = \<lparr>p_x = 0, p_y = 0\<rparr>, topRight = \<lparr>p_x = 0, p_y = 0\<rparr>,
                  bottomRight = \<lparr>p_x = 0, p_y = 0\<rparr>, bottomLeft = \<lparr>p_x = 0, p_y = 0\<rparr>\<rparr>\<rparr>"

record ReaderOptions =
  formats :: "BarcodeFormat set"
  isPure :: bool
  tryHarder :: bool
  tryRotate :: bool
  tryDownscale :: bool
  tryInvert :: bool
  returnErrors :: bool
  binarizer :: Binarizer

definition defaultOptions :: ReaderOptions where
  "defaultOptions =
     \<lparr>formats = {}, isPure = False, tryHarder = True, tryRotate = True, tryDownscale = True,
      tryInvert = True, returnErrors = False, binarizer = LocalAverage\<rparr>"

record ImageView =
  iv_data :: "byte list"
  iv_width :: int
  iv_height :: int

text \<open>
  The trace of an entry point: the calls it makes, in order, to \<open>cropGray\<close>, to
  \<open>measureWhiteMargins\<close> and to the decode primitive, and after each decode attempt the
  result the attempt ends with (after the micro-variant fallback).
\<close>

datatype event =
    CropGray
  | MeasureWhiteMargins
  | ReadBarcode ImageView ReaderOptions
  | Attempt Barcode

type_synonym reader = "ImageView \<Rightarrow> ReaderOptions \<Rightarrow> Barcode"

definition retryAsQRCodeIfMicroInvalid ::
  "reader \<Rightarrow> ImageView \<Rightarrow> ReaderOptions \<Rightarrow> Barcode \<Rightarrow> Barcode \<times> event list" where
  "retryAsQRCodeIfMicroInvalid rd img opts current =
     (if format current \<noteq> MicroQRCode then (current, [])
      else if isValid current then (current, [])
      else if errorType current \<noteq> Format then (current, [])
      else
        (let opts2 = opts\<lparr>formats := {QRCode}\<rparr>;
             retry = rd img opts2
         in if format retry \<noteq> FormatNone \<and> (isValid retry \<or> textOf retry \<noteq> [])
            then (retry, [ReadBarcode img opts2])
            else (current, [ReadBarcode img opts2])))"

text \<open>
  One decode attempt as every call site writes it: \<open>ReadBarcode\<close>, then
  \<open>retryAsQRCodeIfMicroInvalid\<close> on its result.
\<close>

definition readWithRetry :: "reader \<Rightarrow> ImageView \<Rightarrow> ReaderOptions \<Rightarrow> Barcode \<times> event list" where
  "readWithRetry rd img opts =
     (let b = rd img opts;
          (b', evs) = retryAsQRCodeIfMicroInvalid rd img opts b
      in (b', ReadBarcode img opts # evs @ [Attempt b']))"

section \<open>Strings and diagnostics\<close>

fun decimal :: "nat \<Rightarrow> string" where
  "decimal n = (if n < 10 then [''0123456789'' ! n]
                else decimal (n div 10) @ [''0123456789'' ! (n mod 10)])"

declare decimal.simps [simp del]

text \<open>\<open>std::to_string\<close> on an \<open>int\<close>.\<close>

definition to_string :: "int \<Rightarrow> string" where
  "to_string i = (if i < 0 then CHR ''-'' # decimal (nat (- i)) else decimal (nat i))"

definition formatRect :: "RectI \<Rightarrow> string" where
  "formatRect r =
     to_string (r_left r) @ '','' @ to_string (r_top r) @ '','' @ to_string (r_right r) @ '',''
       @ to_string (r_bottom r)"

definition formatQuad :: "int \<Rightarrow> int \<Rightarrow> int \<Rightarrow> int \<Rightarrow> int \<Rightarrow> int \<Rightarrow> int \<Rightarrow> int \<Rightarrow> string" where
  "formatQuad x0 y0 x1 y1 x2 y2 x3 y3 =
     to_string x0 @ '','' @ to_string y0 @ '','' @ to_string x1 @ '','' @ to_string y1 @ '',''
       @ to_string x2 @ '','' @ to_string y2 @ '','' @ to_string x3 @ '','' @ to_string y3"

definition mapPointFromRotToCrop :: "int \<Rightarrow> int \<Rightarrow> int \<Rightarrow> int \<Rightarrow> int \<Rightarrow> int \<times> int" where
  "mapPointFromRotToCrop rot cropW cropH xRot yRot =
     (if rot = 90 then (yRot, cropH - 1 - xRot)
      else if rot = 270 then (cropW - 1 - yRot, xRot)
      else if rot = 180 then (cropW - 1 - xRot, cropH - 1 - yRot)
      else (xRot, yRot))"

definition INT_MAX :: int where "INT_MAX = 2147483647"
definition INT_MIN :: int where "INT_MIN = - 2147483648"

definition mapRectFromRotToCrop :: "int \<Rightarrow> int \<Rightarrow> int \<Rightarrow> RectI \<Rightarrow> RectI" where
  "mapRectFromRotToCrop rot cropW cropH rInRot =
     (let xs = [r_left rInRot, r_right rInRot, r_right rInRot, r_left rInRot];
          ys = [r_top rInRot, r_top rInRot, r_bottom rInRot, r_bottom rInRot];
          (minX, minY, maxX, maxY) =
            fold (\<lambda>i (minX, minY, maxX, maxY).
                    (let (xC, yC) = mapPointFromRotToCrop rot cropW cropH (xs ! i) (ys ! i)
                     in (min minX xC, min minY yC, max maxX xC, max maxY yC)))
              [0 ..< 4] (INT_MAX, INT_MAX, INT_MIN, INT_MIN)
      in clampRect \<lparr>r_left = minX, r_top = minY, r_right = maxX, r_bottom = maxY\<rparr> cropW cropH)"

definition trimPipes :: "string \<Rightarrow> string" where
  "trimPipes s = map (\<lambda>c. if c = CHR ''|'' then CHR ''/'' else c) s"

definition hexPrefix :: "byte list \<Rightarrow> nat \<Rightarrow> string" where
  "hexPrefix bs maxBytes =
     concat (map (\<lambda>b. [''0123456789ABCDEF'' ! unat (and (drop_bit 4 b) 0xF),
                        ''0123456789ABCDEF'' ! unat (and b 0xF)])
                 (take (min maxBytes (length bs)) bs))"

definition errorTypeToStr :: "ErrorType \<Rightarrow> string" where
  "errorTypeToStr t =
     (case t of Format \<Rightarrow> ''Format'' | Checksum \<Rightarrow> ''Checksum'' | Unsupported \<Rightarrow> ''Unsupported''
      | ErrorNone \<Rightarrow> ''None'')"

text \<open>\<open>ZXing::ToString\<close> on a format and on an error, as the library prints them.\<close>

definition formatToString :: "BarcodeFormat \<Rightarrow> string" where
  "formatToString f =
     (case f of FormatNone \<Rightarrow> ''None'' | QRCode \<Rightarrow> ''QRCode'' | MicroQRCode \<Rightarrow> ''MicroQRCode'')"

definition errorToString :: "Barcode \<Rightarrow> string" where
  "errorToString b =
     (case errorType b of ErrorNone \<Rightarrow> [] | Format \<Rightarrow> ''FormatError''
      | Checksum \<Rightarrow> ''ChecksumError'' | Unsupported \<Rightarrow> ''Unsupported'')
     @ (if errorMsg b \<noteq> [] then '' ('' @ errorMsg b @ '')'' else [])
     @ (if errorLocation b \<noteq> [] then '' @ '' @ errorLocation b else [])"

definition buildInvalidDiagnosticText :: "Barcode \<Rightarrow> bool \<Rightarrow> string" where
  "buildInvalidDiagnosticText barcode includeText =
     (let text = (if includeText then trimPipes (textOf barcode) else []);
          text = (if text \<noteq> [] then (if length text > 96 then take 96 text else text) else text);
          fmt = trimPipes (formatToString (format barcode));
          ver = trimPipes (version barcode);
          ecl = trimPipes (ecLevel barcode);
          si = trimPipes (symbologyIdentifier barcode);
          errType = errorTypeToStr (errorType barcode);
          errMsg = trimPipes (take (min 64 (length (errorMsg barcode))) (errorMsg barcode));
          hex0 = hexPrefix (bytes barcode) 28;
          hexEci0 = (if hasECI barcode then hexPrefix (bytesECI barcode) 28 else []);
          out = ''INVALID('' @ errType @ (if isValid barcode then '',V'' else '',I'') @ '')'';
          out = out @ '' fmt='' @ fmt;
          out = (if ver \<noteq> [] then out @ '' ver='' @ ver else out);
          out = (if ecl \<noteq> [] then out @ '' ecl='' @ ecl else out);
          out = (if si \<noteq> [] then out @ '' si='' @ si else out);
          out = out @ '' mir='' @ to_string (if isMirrored barcode then 1 else 0);
          out = out @ '' inv='' @ to_string (if isInverted barcode then 1 else 0);
          out = out @ '' ori='' @ to_string (orientation barcode);
          out = out @ '' len='' @ to_string (int (length (bytes barcode)));
          out = (if hex0 \<noteq> [] then out @ '' hex='' @ hex0 else out);
          out = (if hexEci0 \<noteq> [] then out @ '' eciHex='' @ hexEci0 else out);
          out = (if errMsg \<noteq> [] then out @ '' msg='' @ errMsg else out);
          out = (if text \<noteq> [] then out @ '' txt='' @ text else out)
      in out)"

section \<open>Primary entry point: the synthetic fast path\<close>

definition min4 :: "int \<Rightarrow> int \<Rightarrow> int \<Rightarrow> int \<Rightarrow> int" where
  "min4 a b c d = min (min (min a b) c) d"

definition max4 :: "int \<Rightarrow> int \<Rightarrow> int \<Rightarrow> int \<Rightarrow> int" where
  "max4 a b c d = max (max (max a b) c) d"

text \<open>The lambda \<open>tryPure\<close> of the fast path.\<close>

definition tryPure :: "reader \<Rightarrow> byte list \<Rightarrow> int \<Rightarrow> int \<Rightarrow> bool \<Rightarrow> Binarizer \<Rightarrow> Barcode \<times> event list" where
  "tryPure rd buf bufW bufH th bin =
     (let img = \<lparr>iv_data = buf, iv_width = bufW, iv_height = bufH\<rparr>;
          opts = defaultOptions
                   \<lparr>formats := {QRCode, MicroQRCode}, isPure := True, tryHarder := th,
                    tryRotate := False, tryDownscale := False, tryInvert := th,
                    returnErrors := True, binarizer := bin\<rparr>
      in readWithRetry rd img opts)"

text \<open>The string the fast path returns for a detected symbol \<open>b\<close> found at padding \<open>pad\<close>.\<close>

definition syntheticOutput :: "Barcode \<Rightarrow> int \<Rightarrow> int \<Rightarrow> int \<Rightarrow> string" where
  "syntheticOutput b pad rotW rotH =
     (let text = textOf b;
          text = (if \<not> isValid b \<or> text = [] then buildInvalidDiagnosticText b True else text);
          pos = position b;
          tlx = clamp (p_x (topLeft pos) - pad) 0 (max 0 (rotW - 1));
          tly = clamp (p_y (topLeft pos) - pad) 0 (max 0 (rotH - 1));
          trx = clamp (p_x (topRight pos) - pad) 0 (max 0 (rotW - 1));
          tryy = clamp (p_y (topRight pos) - pad) 0 (max 0 (rotH - 1));
          brx = clamp (p_x (bottomRight pos) - pad) 0 (max 0 (rotW - 1));
          bry = clamp (p_y (bottomRight pos) - pad) 0 (max 0 (rotH - 1));
          blx = clamp (p_x (bottomLeft pos) - pad) 0 (max 0 (rotW - 1));
          bly = clamp (p_y (bottomLeft pos) - pad) 0 (max 0 (rotH - 1));
          minX = min4 tlx trx brx blx;
          maxX = max4 tlx trx brx blx;
          minY = min4 tly tryy bry bly;
          maxY = max4 tly tryy bry bly
      in text @ ''|'' @ formatRect \<lparr>r_left = minX, r_top = minY, r_right = maxX, r_bottom = maxY\<rparr>
           @ ''|'' @ formatQuad tlx tly trx tryy brx bry blx bly)"

text \<open>
  The buffers the two nested loops of the fast path visit, in order: for each padding of
  \<open>{0, 16, 32}\<close> the padded image, then its unknown-to-white and unknown-to-black variants.
\<close>

definition syntheticCandidates :: "byte list \<Rightarrow> int \<Rightarrow> int \<Rightarrow> (int \<times> byte list \<times> int \<times> int) list" where
  "syntheticCandidates rotated rotW rotH =
     (let unknownToWhite = mapUnknownValue rotated rotW rotH 127 255;
          unknownToBlack = mapUnknownValue rotated rotW rotH 127 0
      in concat (map (\<lambda>pad.
           (let (padded, pw, ph) = addWhiteBorder rotated rotW rotH pad;
                (paddedW, pw, ph) = addWhiteBorder unknownToWhite rotW rotH pad;
                (paddedB, pw, ph) = addWhiteBorder unknownToBlack rotW rotH pad
            in [(pad, padded, pw, ph), (pad, paddedW, pw, ph), (pad, paddedB, pw, ph)]))
           [0, 16, 32]))"

text \<open>
  The body of the loops: fixed threshold, then local average if nothing was detected; the
  first detected format returns from the entry point with its string.
\<close>

fun syntheticLoop ::
  "reader \<Rightarrow> bool \<Rightarrow> int \<Rightarrow> int \<Rightarrow> (int \<times> byte list \<times> int \<times> int) list \<Rightarrow> string option \<times> event list" where
  "syntheticLoop rd th rotW rotH [] = (None, [])"
| "syntheticLoop rd th rotW rotH ((pad, buf, bufW, bufH) # rest) =
     (let (b, evs1) = tryPure rd buf bufW bufH th FixedThreshold;
          (b, evs2) = (if format b = FormatNone then tryPure rd buf bufW bufH th LocalAverage
                       else (b, []))
      in if format b \<noteq> FormatNone then (Some (syntheticOutput b pad rotW rotH), evs1 @ evs2)
         else (let (r, evs3) = syntheticLoop rd th rotW rotH rest in (r, evs1 @ evs2 @ evs3)))"

section \<open>Primary entry point: the adaptive plan\<close>

definition qzSuspect :: "Margins \<Rightarrow> bool" where
  "qzSuspect m = (m_left m \<le> 2 \<or> m_right m \<le> 2 \<or> m_top m \<le> 2 \<or> m_bottom m \<le> 2)"

definition qzZero :: "Margins \<Rightarrow> bool" where
  "qzZero m = (m_left m = 0 \<and> m_right m = 0 \<and> m_top m = 0 \<and> m_bottom m = 0)"

definition targetQz :: "bool \<Rightarrow> Margins \<Rightarrow> int \<Rightarrow> int" where
  "targetQz th m minDim =
     (let targetQzBase = minDim sdiv 10;
          targetQzBase =
            (if th then
               (let t = max targetQzBase (minDim sdiv 7)
                in if qzSuspect m then max t (minDim sdiv 6) else t)
             else (if qzSuspect m then max targetQzBase (minDim sdiv 8) else targetQzBase));
          targetQzBase =
            (if qzZero m then max targetQzBase (if th then minDim sdiv 4 else minDim sdiv 5)
             else targetQzBase);
          targetQzMax =
            (if th then (if qzZero m then 220 else if qzSuspect m then 140 else 96)
             else (if qzZero m then 160 else if qzSuspect m then 96 else 64))
      in clamp targetQzBase (if th then 20 else 14) targetQzMax)"

definition padCap :: "Margins \<Rightarrow> int \<Rightarrow> int \<Rightarrow> int" where
  "padCap m baseW baseH = (if qzZero m then 512 else if max baseW baseH \<le> 900 then 192 else 512)"

definition basePad :: "bool \<Rightarrow> Margins \<Rightarrow> int \<Rightarrow> int \<Rightarrow> int \<Rightarrow> int" where
  "basePad th m minDim tq cap =
     (let basePadMax =
            (if th then (if qzZero m then cap else if qzSuspect m then 320 else 192)
             else (if qzZero m then 256 else if qzSuspect m then 192 else 128));
          basePadMin = (if qzZero m then (if th then 128 else 96) else if qzSuspect m then 32 else 16);
          basePadBasis = (if qzZero m then max tq (minDim sdiv 6) else max tq (minDim sdiv 8))
      in clamp basePadBasis basePadMin basePadMax)"

text \<open>The vector \<open>pads\<close> as pushed, before sorting.\<close>

definition padsPushed :: "bool \<Rightarrow> Margins \<Rightarrow> int \<Rightarrow> int \<Rightarrow> int list" where
  "padsPushed th m bp cap =
     [0, clamp (bp sdiv 2) 0 96, bp]
     @ (if th then
          (if qzZero m then
             [clamp (bp * 2) (bp + 1) cap,
              clamp (bp * 3) (bp * 2 + 1) cap,
              clamp (bp * 4) (bp * 3 + 1) cap,
              clamp (bp * 6) (bp * 4 + 1) cap]
           else
             [clamp (bp * 2) (bp + 1) 192,
              clamp (bp * 3) (bp * 2 + 1) 256,
              clamp (bp sdiv 3) 0 64]
             @ (if qzSuspect m then
                  [clamp (bp * 4) (bp * 3 + 1) cap,
                   clamp (bp * 6) (bp * 4 + 1) cap]
                else []))
        else [])"

text \<open>
  \<open>std::sort\<close> (with \<open>std::greater\<close> when the quiet zone is zero), then
  \<open>erase(unique(\<dots>))\<close>, which drops each element equal to its predecessor.
\<close>

definition sortPads :: "bool \<Rightarrow> int list \<Rightarrow> int list" where
  "sortPads descending xs = remdups_adj (if descending then rev (sort xs) else sort xs)"

definition padsOf :: "bool \<Rightarrow> Margins \<Rightarrow> int \<Rightarrow> int \<Rightarrow> int list" where
  "padsOf th m bp cap = sortPads (qzZero m) (padsPushed th m bp cap)"

text \<open>
  The scale candidates are \<open>double\<close> literals in the source; they are exact rationals here,
  ordered as the literals are.
\<close>

definition scalesOf :: "bool \<Rightarrow> bool \<Rightarrow> bool \<Rightarrow> int \<Rightarrow> int \<Rightarrow> rat list" where
  "scalesOf th qz0 qzS paddedW paddedH =
     (let maxSide = max paddedW paddedH;
          scales = [1.0];
          scales = (if th \<and> max paddedW paddedH \<ge> 1100 then scales @ [0.75] else scales);
          scales =
            (if th then
               (let scales = (if qz0 then scales @ [0.5, 0.66, 0.75, 1.25] else scales)
                in if qz0 \<and> maxSide \<ge> 900 then scales @ [1.5, 2.0, 2.5]
                   else if qzS \<and> maxSide \<ge> 900 then scales @ [0.66, 1.5]
                   else scales)
             else scales)
      in remdups_adj (if qz0 then rev (sort scales) else sort scales))"

text \<open>
  The image handed to the primitive at one scale. \<open>lround(paddedW * scale)\<close> on the
  listed literals rounds as the exact product does.
\<close>

definition scaledImage :: "byte list \<Rightarrow> int \<Rightarrow> int \<Rightarrow> rat \<Rightarrow> ImageView" where
  "scaledImage padded paddedW paddedH scale =
     (if scale \<noteq> 1.0 then
        (let dstW = clamp (lround (of_int paddedW * scale)) 32 2200;
             dstH = clamp (lround (of_int paddedH * scale)) 32 2200
         in \<lparr>iv_data = resizeGrayBilinear padded paddedW paddedH dstW dstH,
             iv_width = dstW, iv_height = dstH\<rparr>)
      else \<lparr>iv_data = padded, iv_width = paddedW, iv_height = paddedH\<rparr>)"

section \<open>Primary entry point: the multi-pass orchestrator\<close>

text \<open>The locals of \<open>decodeGray\<close> that the loops update.\<close>

record Locals =
  barcode :: Barcode
  bestInvalid :: Barcode
  haveInvalid :: bool
  bestInvalidPad :: int
  bestInvalidScale :: rat

definition initLocals :: Locals where
  "initLocals =
     \<lparr>barcode = emptyBarcode, bestInvalid = emptyBarcode, haveInvalid = False,
      bestInvalidPad = 0, bestInvalidScale = 1.0\<rparr>"

text \<open>
  The options of the first attempt. The call \<open>setTryDenoise\<close> exists only under the
  compile-time switch \<open>ZXING_EXPERIMENTAL_API\<close> and is left out.
\<close>

definition generalOptions :: "bool \<Rightarrow> ReaderOptions" where
  "generalOptions th =
     defaultOptions
       \<lparr>formats := {QRCode, MicroQRCode}, tryHarder := th, tryInvert := th, tryRotate := False,
        tryDownscale := th, returnErrors := th\<rparr>"

text \<open>
  The three statements every attempt starts with: read, micro-variant fallback, and the
  best-invalid bookkeeping.
\<close>

definition attempt :: "reader \<Rightarrow> ImageView \<Rightarrow> ReaderOptions \<Rightarrow> int \<Rightarrow> rat \<Rightarrow> Locals \<Rightarrow> Locals \<times> event list" where
  "attempt rd img opts pad scale st =
     (let (b, evs) = readWithRetry rd img opts;
          st = st\<lparr>barcode := b\<rparr>;
          st = (if format (barcode st) \<noteq> FormatNone \<and> \<not> isValid (barcode st) \<and> \<not> haveInvalid st
                then st\<lparr>bestInvalid := barcode st, haveInvalid := True,
                        bestInvalidPad := pad, bestInvalidScale := scale\<rparr>
                else st)
      in (st, evs))"

text \<open>
  An escalation step (attempts 2 to 5): it runs only when nothing is detected so far and
  the effort flag is set, with the options changed by \<open>f\<close>, and resets a format error.
\<close>

definition escalate ::
  "reader \<Rightarrow> bool \<Rightarrow> ImageView \<Rightarrow> (ReaderOptions \<Rightarrow> ReaderOptions) \<Rightarrow> int \<Rightarrow> rat
    \<Rightarrow> ReaderOptions \<times> Locals \<times> event list \<Rightarrow> ReaderOptions \<times> Locals \<times> event list" where
  "escalate rd th img f pad scale s =
     (case s of (opts, st, evs) \<Rightarrow>
        if format (barcode st) = FormatNone \<and> th then
          (let opts = f opts;
               (st, evs') = attempt rd img opts pad scale st;
               st = (if errorType (barcode st) = Format then st\<lparr>barcode := emptyBarcode\<rparr> else st)
           in (opts, st, evs @ evs'))
        else (opts, st, evs))"

text \<open>The body of the scale loop up to the test of \<open>decoded\<close>: attempt 1 and the four escalations.\<close>

definition decodeAtScale :: "reader \<Rightarrow> bool \<Rightarrow> ImageView \<Rightarrow> int \<Rightarrow> rat \<Rightarrow> Locals \<Rightarrow> Locals \<times> event list" where
  "decodeAtScale rd th img pad scale st0 =
     (let opts = generalOptions th;
          (st, evs) = attempt rd img opts pad scale st0;
          st = (if errorType (barcode st) = Format \<and> \<not> th then st\<lparr>barcode := emptyBarcode\<rparr> else st);
          s = escalate rd th img (\<lambda>opts. opts\<lparr>binarizer := GlobalHistogram\<rparr>) pad scale (opts, st, evs);
          s = escalate rd th img (\<lambda>opts. opts\<lparr>binarizer := FixedThreshold\<rparr>) pad scale s;
          s = escalate rd th img (\<lambda>opts. opts\<lparr>tryRotate := True, binarizer := LocalAverage\<rparr>) pad scale s;
          s = escalate rd th img (\<lambda>opts. opts\<lparr>tryRotate := True, binarizer := FixedThreshold\<rparr>) pad scale s
      in (fst (snd s), snd (snd s)))"

text \<open>
  The scale loop; \<open>Some scale\<close> is \<open>decoded = true\<close> with \<open>scaleUsed = scale\<close> at the \<open>break\<close>.
\<close>

fun scaleLoop ::
  "reader \<Rightarrow> bool \<Rightarrow> byte list \<Rightarrow> int \<Rightarrow> int \<Rightarrow> int \<Rightarrow> rat list \<Rightarrow> Locals
    \<Rightarrow> Locals \<times> rat option \<times> event list" where
  "scaleLoop rd th padded paddedW paddedH pad [] st = (st, None, [])"
| "scaleLoop rd th padded paddedW paddedH pad (scale # rest) st =
     (let img = scaledImage padded paddedW paddedH scale;
          (st, evs) = decodeAtScale rd th img pad scale st
      in if format (barcode st) \<noteq> FormatNone then (st, Some scale, evs)
         else (let (st, r, evs') = scaleLoop rd th padded paddedW paddedH pad rest st
               in (st, r, evs @ evs')))"

text \<open>The padding loop; \<open>Some (pad, scale)\<close> is the pair \<open>(padUsed, scaleUsed)\<close> at the \<open>break\<close>.\<close>

fun padLoop ::
  "reader \<Rightarrow> bool \<Rightarrow> bool \<Rightarrow> bool \<Rightarrow> byte list \<Rightarrow> int \<Rightarrow> int \<Rightarrow> int list \<Rightarrow> Locals
    \<Rightarrow> Locals \<times> (int \<times> rat) option \<times> event list" where
  "padLoop rd th qz0 qzS base baseW baseH [] st = (st, None, [])"
| "padLoop rd th qz0 qzS base baseW baseH (pad # rest) st =
     (let (padded, paddedW, paddedH) = addWhiteBorder base baseW baseH pad;
          scales = scalesOf th qz0 qzS paddedW paddedH;
          (st, r, evs) = scaleLoop rd th padded paddedW paddedH pad scales st
      in case r of
           Some scale \<Rightarrow> (st, Some (pad, scale), evs)
         | None \<Rightarrow>
             (let (st, r', evs') = padLoop rd th qz0 qzS base baseW baseH rest st
              in (st, r', evs @ evs')))"

text \<open>
  After the loops: the best-invalid result is promoted when the loops end with nothing
  detected; the triple is \<open>(barcode, padUsed, scaleUsed)\<close>.
\<close>

definition promote :: "Locals \<Rightarrow> (int \<times> rat) option \<Rightarrow> Barcode \<times> int \<times> rat" where
  "promote st r =
     (let (padUsed, scaleUsed) = (case r of Some (p, s) \<Rightarrow> (p, s) | None \<Rightarrow> (0, 1.0))
      in if format (barcode st) = FormatNone \<and> haveInvalid st
         then (bestInvalid st, bestInvalidPad st, bestInvalidScale st)
         else (barcode st, padUsed, scaleUsed))"

text \<open>
  The result string of the general path. \<open>lround(x * invScale)\<close> is computed on exact
  rationals. \<open>NewStringUTF(out.c_str())\<close> is taken to return the string \<open>out\<close> (it
  would cut a string at an embedded zero byte, and returns null when the Java heap is
  exhausted; neither is modelled).
\<close>

definition resultString ::
  "bool \<Rightarrow> int \<Rightarrow> RectI \<Rightarrow> int \<Rightarrow> int \<Rightarrow> int \<Rightarrow> int \<Rightarrow> int \<Rightarrow> int \<Rightarrow> Barcode \<Rightarrow> int \<Rightarrow> rat \<Rightarrow> string" where
  "resultString th rot roi cropW cropH rotW rotH padL padT b padUsed scaleUsed =
     (let text = textOf b;
          text = (if th \<and> (\<not> isValid b \<or> text = []) then buildInvalidDiagnosticText b True
                  else text);
          pos = position b;
          offX = padUsed + padL;
          offY = padUsed + padT;
          invScale = (if scaleUsed \<noteq> 0 then 1 / scaleUsed else 1);
          pTlx = lround (of_int (p_x (topLeft pos)) * invScale);
          pTly = lround (of_int (p_y (topLeft pos)) * invScale);
          pTrx = lround (of_int (p_x (topRight pos)) * invScale);
          pTry = lround (of_int (p_y (topRight pos)) * invScale);
          pBrx = lround (of_int (p_x (bottomRight pos)) * invScale);
          pBry = lround (of_int (p_y (bottomRight pos)) * invScale);
          pBlx = lround (of_int (p_x (bottomLeft pos)) * invScale);
          pBly = lround (of_int (p_y (bottomLeft pos)) * invScale);
          tlxR = clamp (pTlx - offX) 0 (max 0 (rotW - 1));
          tlyR = clamp (pTly - offY) 0 (max 0 (rotH - 1));
          trxR = clamp (pTrx - offX) 0 (max 0 (rotW - 1));
          tryR = clamp (pTry - offY) 0 (max 0 (rotH - 1));
          brxR = clamp (pBrx - offX) 0 (max 0 (rotW - 1));
          bryR = clamp (pBry - offY) 0 (max 0 (rotH - 1));
          blxR = clamp (pBlx - offX) 0 (max 0 (rotW - 1));
          blyR = clamp (pBly - offY) 0 (max 0 (rotH - 1));
          minX = min4 tlxR trxR brxR blxR;
          maxX = max4 tlxR trxR brxR blxR;
          minY = min4 tlyR tryR bryR blyR;
          maxY = max4 tlyR tryR bryR blyR;
          boxInRot = \<lparr>r_left = minX, r_top = minY, r_right = maxX, r_bottom = maxY\<rparr>;
          boxInCrop = mapRectFromRotToCrop rot cropW cropH boxInRot;
          boxInFull = \<lparr>r_left = r_left roi + r_left boxInCrop, r_top = r_top roi + r_top boxInCrop,
                       r_right = r_left roi + r_right boxInCrop,
                       r_bottom = r_top roi + r_bottom boxInCrop\<rparr>;
          (tlxC, tlyC) = mapPointFromRotToCrop rot cropW cropH tlxR tlyR;
          (trxC, tryC) = mapPointFromRotToCrop rot cropW cropH trxR tryR;
          (brxC, bryC) = mapPointFromRotToCrop rot cropW cropH brxR bryR;
          (blxC, blyC) = mapPointFromRotToCrop rot cropW cropH blxR blyR;
          quadInFull = formatQuad (r_left roi + tlxC) (r_top roi + tlyC)
                                  (r_left roi + trxC) (r_top roi + tryC)
                                  (r_left roi + brxC) (r_top roi + bryC)
                                  (r_left roi + blxC) (r_top roi + blyC)
      in text @ ''|'' @ formatRect boxInFull @ ''|'' @ quadInFull)"

text \<open>
  The general pipeline, from the margin measurement to the returned string (the two
  \<open>__android_log_print\<close> calls write to the system log and are left out).
\<close>

definition generalPath ::
  "reader \<Rightarrow> bool \<Rightarrow> int \<Rightarrow> RectI \<Rightarrow> int \<Rightarrow> int \<Rightarrow> byte list \<Rightarrow> int \<Rightarrow> int \<Rightarrow> string option \<times> event list" where
  "generalPath rd th rot roi cropW cropH rotated rotW rotH =
     (let minDim = max 1 (min rotW rotH);
          margins = measureWhiteMargins rotated rotW rotH;
          tq = targetQz th margins minDim;
          padL = max 0 (tq - m_left margins);
          padR = max 0 (tq - m_right margins);
          padT = max 0 (tq - m_top margins);
          padB = max 0 (tq - m_bottom margins);
          (base, baseW, baseH) = addWhiteBorderPerSide rotated rotW rotH padL padT padR padB;
          cap = padCap margins baseW baseH;
          bp = basePad th margins minDim tq cap;
          pads = padsOf th margins bp cap;
          (st, r, evs) = padLoop rd th (qzZero margins) (qzSuspect margins) base baseW baseH pads
                           initLocals;
          (b, padUsed, scaleUsed) = promote st r
      in if format b = FormatNone then (None, MeasureWhiteMargins # evs)
         else (Some (resultString th rot roi cropW cropH rotW rotH padL padT b padUsed scaleUsed),
               MeasureWhiteMargins # evs))"

text \<open>
  \<open>Java_com_smartqrcode_NativeDecoder_decodeGray\<close>. \<open>gray\<close> is \<open>None\<close> for a null array;
  \<open>pinned\<close> says whether \<open>GetByteArrayElements\<close> returned a non-null pointer; \<open>th\<close>
  is the test \<open>tryHarder == JNI_TRUE\<close>. The result is the returned string (\<open>None\<close> for
  \<open>nullptr\<close>) and the trace of the call.
\<close>

definition syntheticCondition :: "RectI \<Rightarrow> int \<Rightarrow> int \<Rightarrow> int \<Rightarrow> byte list \<Rightarrow> int \<Rightarrow> int \<Rightarrow> bool" where
  "syntheticCondition roi w h rot rotated rotW rotH =
     ((r_left roi = 0 \<and> r_top roi = 0 \<and> r_right roi = w \<and> r_bottom roi = h)
      \<and> rot = 0 \<and> rotW = rotH \<and> rotW \<le> 900 \<and> looksSyntheticQR rotated rotW rotH)"

text \<open>The primary pipeline after input validation.\<close>

definition primaryPath ::
  "reader \<Rightarrow> bool \<Rightarrow> byte list \<Rightarrow> int \<Rightarrow> int \<Rightarrow> RectI \<Rightarrow> int \<Rightarrow> string option \<times> event list" where
  "primaryPath rd th data w h roi rotationDegrees =
     (let (cropped, cropW, cropH) = cropGray data w h roi;
          (rotated, rotW, rotH) = rotateGray cropped cropW cropH rotationDegrees;
          rot = normRot rotationDegrees;
          (fast, evs) =
            (if syntheticCondition roi w h rot rotated rotW rotH
             then syntheticLoop rd th rotW rotH (syntheticCandidates rotated rotW rotH)
             else (None, []))
      in case fast of
           Some out \<Rightarrow> (Some out, CropGray # evs)
         | None \<Rightarrow>
             if syntheticCondition roi w h rot rotated rotW rotH \<and> th then (None, CropGray # evs)
             else
               (let (res, evs') = generalPath rd th rot roi cropW cropH rotated rotW rotH
                in (res, CropGray # evs @ evs')))"

definition decodeGray ::
  "reader \<Rightarrow> bool \<Rightarrow> byte list option \<Rightarrow> int \<Rightarrow> int \<Rightarrow> int \<Rightarrow> int \<Rightarrow> int \<Rightarrow> int \<Rightarrow> int \<Rightarrow> bool
    \<Rightarrow> string option \<times> event list" where
  "decodeGray rd pinned gray width height rotationDegrees roiLeft roiTop roiRight roiBottom th =
     (case gray of
        None \<Rightarrow> (None, [])
      | Some data \<Rightarrow>
          (let w = width; h = height in
           if w \<le> 0 \<or> h \<le> 0 then (None, [])
           else if length data < nat w * nat h then (None, [])
           else if \<not> pinned then (None, [])
           else
             (let roi = clampRect \<lparr>r_left = roiLeft, r_top = roiTop, r_right = roiRight,
                                   r_bottom = roiBottom\<rparr> w h
              in if r_right roi = r_left roi \<or> r_bottom roi = r_top roi then (None, [])
                 else primaryPath rd th data w h roi rotationDegrees)))"

text \<open>The decode attempts of a trace: the results the attempts ended with, in order.\<close>

fun attempts :: "event list \<Rightarrow> Barcode list" where
  "attempts [] = []"
| "attempts (Attempt b # evs) = b # attempts evs"
| "attempts (_ # evs) = attempts evs"

text \<open>
  The best-invalid tracker read as an optional value, and what the bookkeeping makes of
  it over a list of attempt results: a tracker that is set stays, an empty one takes the
  first result with a detected format that is not valid.
\<close>

definition tracker :: "Locals \<Rightarrow> Barcode option" where
  "tracker st = (if haveInvalid st then Some (bestInvalid st) else None)"

definition track :: "Barcode option \<Rightarrow> Barcode list \<Rightarrow> Barcode option" where
  "track t bs =
     (case t of Some b \<Rightarrow> Some b
      | None \<Rightarrow> find (\<lambda>b. format b \<noteq> FormatNone \<and> \<not> isValid b) bs)"

section \<open>Diagnostic entry point\<close>

text \<open>
  \<open>Java_com_smartqrcode_NativeDecoder_decodeGrayDebug\<close> builds its own plan (it differs from
  the primary one in three constants and in the sort order) and runs its own loop over
  the paddings only.
\<close>

definition debugTargetQz :: "bool \<Rightarrow> Margins \<Rightarrow> int \<Rightarrow> int" where
  "debugTargetQz th m minDim =
     (let targetQzBase = minDim sdiv 10;
          targetQzBase =
            (if th then
               (let t = max targetQzBase (minDim sdiv 7)
                in if qzSuspect m then max t (minDim sdiv 6) else t)
             else (if qzSuspect m then max targetQzBase (minDim sdiv 8) else targetQzBase));
          targetQzBase = (if qzZero m then max targetQzBase (minDim sdiv 5) else targetQzBase);
          targetQzMax =
            (if th then (if qzZero m then 220 else if qzSuspect m then 140 else 96)
             else (if qzZero m then 160 else if qzSuspect m then 96 else 64))
      in clamp targetQzBase (if th then 20 else 14) targetQzMax)"

definition debugBasePad :: "bool \<Rightarrow> Margins \<Rightarrow> int \<Rightarrow> int \<Rightarrow> int \<Rightarrow> int" where
  "debugBasePad th m minDim tq cap =
     (let basePadMax =
            (if th then (if qzZero m then cap else if qzSuspect m then 320 else 192)
             else (if qzZero m then 256 else if qzSuspect m then 192 else 128));
          basePadMin = (if qzZero m then 96 else if qzSuspect m then 32 else 16);
          basePadBasis = (if qzZero m then max tq (minDim sdiv 6) else max tq (minDim sdiv 8))
      in clamp basePadBasis basePadMin basePadMax)"

definition debugPadsPushed :: "bool \<Rightarrow> Margins \<Rightarrow> int \<Rightarrow> int \<Rightarrow> int list" where
  "debugPadsPushed th m bp cap =
     [0, clamp (bp sdiv 2) 0 96, bp]
     @ (if th then
          (if qzZero m then
             [clamp (bp * 2) (bp + 1) cap,
              clamp (bp * 3) (bp * 2 + 1) cap,
              clamp (bp * 4) (bp * 3 + 1) cap]
           else
             [clamp (bp * 2) (bp + 1) 192,
              clamp (bp * 3) (bp * 2 + 1) 256,
              clamp (bp sdiv 3) 0 64]
             @ (if qzSuspect m then
                  [clamp (bp * 4) (bp * 3 + 1) 384,
                   clamp (bp * 6) (bp * 4 + 1) 512]
                else []))
        else [])"

definition debugPadsOf :: "bool \<Rightarrow> Margins \<Rightarrow> int \<Rightarrow> int \<Rightarrow> int list" where
  "debugPadsOf th m bp cap = sortPads False (debugPadsPushed th m bp cap)"

record DebugLocals =
  d_barcode :: Barcode
  d_bestInvalid :: Barcode
  d_haveInvalid :: bool
  d_binUsed :: string
  d_binMask :: byte
  d_lastPadTried :: int

definition initDebugLocals :: DebugLocals where
  "initDebugLocals =
     \<lparr>d_barcode = emptyBarcode, d_bestInvalid = emptyBarcode, d_haveInvalid = False,
      d_binUsed = ''local'', d_binMask = 0, d_lastPadTried = - 1\<rparr>"

definition debugOptions :: "bool \<Rightarrow> ReaderOptions" where
  "debugOptions th =
     defaultOptions
       \<lparr>formats := {QRCode, MicroQRCode}, tryHarder := th, tryInvert := True, tryRotate := False,
        tryDownscale := th, returnErrors := True\<rparr>"

text \<open>One attempt of the diagnostic loop, with its bookkeeping and the reset of a format error.\<close>

definition debugAttempt ::
  "reader \<Rightarrow> ImageView \<Rightarrow> ReaderOptions \<Rightarrow> string \<Rightarrow> byte \<Rightarrow> DebugLocals \<Rightarrow> DebugLocals \<times> event list" where
  "debugAttempt rd img opts name bm st =
     (let st = st\<lparr>d_binUsed := name\<rparr>;
          (b, evs) = readWithRetry rd img opts;
          st = st\<lparr>d_barcode := b, d_binMask := or (d_binMask st) bm\<rparr>;
          st = (if format (d_barcode st) \<noteq> FormatNone \<and> \<not> isValid (d_barcode st)
                   \<and> \<not> d_haveInvalid st
                then st\<lparr>d_bestInvalid := d_barcode st, d_haveInvalid := True\<rparr>
                else st);
          st = (if errorType (d_barcode st) = Format then st\<lparr>d_barcode := emptyBarcode\<rparr> else st)
      in (st, evs))"

definition debugEscalate ::
  "reader \<Rightarrow> bool \<Rightarrow> ImageView \<Rightarrow> Binarizer \<Rightarrow> string \<Rightarrow> byte
    \<Rightarrow> ReaderOptions \<times> DebugLocals \<times> event list \<Rightarrow> ReaderOptions \<times> DebugLocals \<times> event list" where
  "debugEscalate rd th img bin name bm s =
     (case s of (opts, st, evs) \<Rightarrow>
        if format (d_barcode st) = FormatNone \<and> th then
          (let opts = opts\<lparr>binarizer := bin\<rparr>;
               (st, evs') = debugAttempt rd img opts name bm st
           in (opts, st, evs @ evs'))
        else (opts, st, evs))"

fun debugLoop ::
  "reader \<Rightarrow> bool \<Rightarrow> byte list \<Rightarrow> int \<Rightarrow> int \<Rightarrow> int list \<Rightarrow> DebugLocals
    \<Rightarrow> DebugLocals \<times> int option \<times> event list" where
  "debugLoop rd th base baseW baseH [] st = (st, None, [])"
| "debugLoop rd th base baseW baseH (pad # rest) st =
     (let st = st\<lparr>d_lastPadTried := pad\<rparr>;
          (padded, paddedW, paddedH) = addWhiteBorder base baseW baseH pad;
          img = \<lparr>iv_data = padded, iv_width = paddedW, iv_height = paddedH\<rparr>;
          opts = debugOptions th;
          (st, evs) = debugAttempt rd img opts ''local'' 1 st;
          s = debugEscalate rd th img GlobalHistogram ''global'' 2 (opts, st, evs);
          s = debugEscalate rd th img FixedThreshold ''fixed'' 4 s;
          st = fst (snd s);
          evs = snd (snd s)
      in if format (d_barcode st) \<noteq> FormatNone then (st, Some pad, evs)
         else (let (st, r, evs') = debugLoop rd th base baseW baseH rest st
               in (st, r, evs @ evs')))"

text \<open>The list of paddings as the diagnostic line prints it.\<close>

fun joinPads :: "int list \<Rightarrow> string" where
  "joinPads [] = []"
| "joinPads [p] = to_string p"
| "joinPads (p # ps) = to_string p @ '','' @ joinPads ps"

text \<open>
  The diagnostic pipeline after input validation: crop, rotate, plan, loop, and the
  diagnostic line.
\<close>

definition debugPath ::
  "reader \<Rightarrow> bool \<Rightarrow> byte list \<Rightarrow> int \<Rightarrow> int \<Rightarrow> RectI \<Rightarrow> int \<Rightarrow> string \<times> event list" where
  "debugPath rd th data w h roi rotationDegrees =
     (let (cropped, cropW, cropH) = cropGray data w h roi;
          (rotated, rotW, rotH) = rotateGray cropped cropW cropH rotationDegrees;
          minDim = max 1 (min rotW rotH);
          margins = measureWhiteMargins rotated rotW rotH;
          tq = debugTargetQz th margins minDim;
          padL = max 0 (tq - m_left margins);
          padR = max 0 (tq - m_right margins);
          padT = max 0 (tq - m_top margins);
          padB = max 0 (tq - m_bottom margins);
          (base, baseW, baseH) = addWhiteBorderPerSide rotated rotW rotH padL padT padR padB;
          cap = padCap margins baseW baseH;
          bp = debugBasePad th margins minDim tq cap;
          pads = debugPadsOf th margins bp cap;
          (st, r, evs) = debugLoop rd th base baseW baseH pads initDebugLocals;
          padUsed = (case r of Some p \<Rightarrow> p | None \<Rightarrow> 0);
          b = (if format (d_barcode st) = FormatNone \<and> d_haveInvalid st
               then d_bestInvalid st else d_barcode st);
          out = ''f='' @ formatToString (format b);
          out = out @ '' v='' @ to_string (if isValid b then 1 else 0);
          out = out @ '' e='' @ (if errorType b \<noteq> ErrorNone then errorToString b else ''None'');
          out = out @ '' inv='' @ to_string (if isInverted b then 1 else 0);
          out = out @ '' mir='' @ to_string (if isMirrored b then 1 else 0);
          out = out @ '' o='' @ to_string (orientation b);
          out = out @ '' bin='' @ d_binUsed st;
          out = out @ '' bmask='' @ to_string (uint (d_binMask st));
          out = out @ '' pad='' @ to_string padUsed;
          out = out @ '' lastpad='' @ to_string (d_lastPadTried st);
          out = out @ '' qz='' @ to_string (m_left margins) @ '','' @ to_string (m_top margins)
                  @ '','' @ to_string (m_right margins) @ '','' @ to_string (m_bottom margins);
          out = out @ '' pside='' @ to_string padL @ '','' @ to_string padT @ '',''
                  @ to_string padR @ '','' @ to_string padB;
          out = out @ '' tqz='' @ to_string tq;
          out = out @ '' bpad='' @ to_string bp;
          out = out @ '' pads='' @ joinPads pads;
          out = out @ '' roi='' @ formatRect roi;
          out = out @ '' crop='' @ to_string cropW @ ''x'' @ to_string cropH;
          out = out @ '' rot='' @ to_string rotW @ ''x'' @ to_string rotH;
          out = out @ '' base='' @ to_string baseW @ ''x'' @ to_string baseH;
          out = out @ '' th='' @ to_string (if th then 1 else 0)
      in (out, CropGray # MeasureWhiteMargins # evs))"

text \<open>
  The entry point: every \<open>return\<close> is \<open>env->NewStringUTF(\<dots>)\<close>, taken to return the string
  it is given.
\<close>

definition decodeGrayDebug ::
  "reader \<Rightarrow> bool \<Rightarrow> byte list option \<Rightarrow> int \<Rightarrow> int \<Rightarrow> int \<Rightarrow> int \<Rightarrow> int \<Rightarrow> int \<Rightarrow> int \<Rightarrow> bool
    \<Rightarrow> string option \<times> event list" where
  "decodeGrayDebug rd pinned gray width height rotationDegrees roiLeft roiTop roiRight roiBottom th =
     (case gray of
        None \<Rightarrow> (Some ''null-gray'', [])
      | Some data \<Rightarrow>
          (let w = width; h = height in
           if w \<le> 0 \<or> h \<le> 0 then (Some ''bad-size'', [])
           else if length data < nat w * nat h then (Some ''bad-len'', [])
           else if \<not> pinned then (Some ''no-bytes'', [])
           else
             (let roi = clampRect \<lparr>r_left = roiLeft, r_top = roiTop, r_right = roiRight,
                                   r_bottom = roiBottom\<rparr> w h
              in if r_right roi = r_left roi \<or> r_bottom roi = r_top roi then (Some ''empty-roi'', [])
                 else (let (out, evs) = debugPath rd th data w h roi rotationDegrees
                       in (Some out, evs)))))"

section \<open>Example inputs\<close>

text \<open>
  A three by two image that is not square (so the synthetic fast path does not apply),
  its full region of interest, and four primitives: one that detects nothing, one that
  reports a QR symbol with a format error on every image, one that decodes every
  image to the valid payload \<open>a|b\<close>, and one that reports the format error under every
  binarizer but the global histogram, under which it decodes the valid payload \<open>ok\<close>.
\<close>

definition exData :: "byte list" where
  "exData = [0, 255, 0, 255, 0, 255]"

definition exRoi :: RectI where
  "exRoi = \<lparr>r_left = 0, r_top = 0, r_right = 3, r_bottom = 2\<rparr>"

definition rdNone :: reader where
  "rdNone = (\<lambda>img opts. emptyBarcode)"

definition formatErrorBarcode :: Barcode where
  "formatErrorBarcode = emptyBarcode\<lparr>format := QRCode, errorType := Format\<rparr>"

definition rdFormatError :: reader where
  "rdFormatError = (\<lambda>img opts. formatErrorBarcode)"

definition pipeBarcode :: Barcode where
  "pipeBarcode = emptyBarcode\<lparr>format := QRCode, isValid := True, textOf := ''a|b''\<rparr>"

definition rdPipe :: reader where
  "rdPipe = (\<lambda>img opts. pipeBarcode)"

definition microFormatError :: Barcode where
  "microFormatError = emptyBarcode\<lparr>format := MicroQRCode, errorType := Format\<rparr>"

definition exImage :: ImageView where
  "exImage = \<lparr>iv_data = [0], iv_width = 1, iv_height = 1\<rparr>"

definition okBarcode :: Barcode where
  "okBarcode = emptyBarcode\<lparr>format := QRCode, isValid := True, textOf := ''ok''\<rparr>"

definition rdGlobalOnly :: reader where
  "rdGlobalOnly = (\<lambda>img opts. if binarizer opts = GlobalHistogram then okBarcode
                                 else formatErrorBarcode)"

section \<open>Rotation: the copy loops and the round trip\<close>

lemma fold_upd_length: "length (fold (\<lambda>k d. d[idx k := val k]) ks d) = length d"
  by (induction ks arbitrary: d) auto

lemma fold_upd_nth:
  "distinct (map idx ks) \<Longrightarrow> k \<in> set ks \<Longrightarrow> idx k < length d
    \<Longrightarrow> fold (\<lambda>k d. d[idx k := val k]) ks d ! idx k = val k"
proof (induction ks arbitrary: d rule: rev_induct)
  case Nil
  then show ?case by simp
next
  case (snoc a ks)
  show ?case
  proof (cases "idx k = idx a")
    case True
    with snoc.prems have "k = a" by (auto simp: image_iff)
    then show ?thesis using snoc.prems by (simp add: fold_upd_length)
  next
    case False
    with snoc.prems have "k \<in> set ks" by auto
    with snoc False show ?thesis by simp
  qed
qed

lemma fold2_flat:
  "fold (\<lambda>y. fold (f y) xs) ys = fold (\<lambda>p. f (fst p) (snd p)) (List.product ys xs)"
  by (induction ys) (auto simp: fold_map comp_def)

lemma loop2_length:
  "length (fold (\<lambda>y. fold (\<lambda>x dst. dst[idx y x := val y x]) xs) ys d) = length d"
  unfolding fold2_flat
  by (rule fold_upd_length)

lemma loop2_nth:
  assumes inj: "inj_on (\<lambda>(y, x). idx y x) (set ys \<times> set xs)"
    and "distinct ys" "distinct xs" "y \<in> set ys" "x \<in> set xs" "idx y x < length d"
  shows "fold (\<lambda>y. fold (\<lambda>x dst. dst[idx y x := val y x]) xs) ys d ! idx y x = val y x"
proof -
  have d: "distinct (map (\<lambda>p. idx (fst p) (snd p)) (List.product ys xs))"
    using assms by (simp add: distinct_map distinct_product case_prod_unfold)
  have m: "(y, x) \<in> set (List.product ys xs)" using assms by simp
  show ?thesis
    unfolding fold2_flat
    using fold_upd_nth [OF d m, of d "\<lambda>p. val (fst p) (snd p)"] assms(6)
    by simp
qed

lemma idx2_inj:
  fixes x r h :: int
  assumes "0 \<le> r" "r < h" "0 \<le> r'" "r' < h" "x * h + r = x' * h + r'"
  shows "x = x' \<and> r = r'"
proof -
  have "(x - x') * h = r' - r" using assms by (simp add: algebra_simps)
  then have "\<bar>(x - x') * h\<bar> = \<bar>r' - r\<bar>" by simp
  moreover have "0 < h" using assms by simp
  ultimately have "\<bar>x - x'\<bar> * h = \<bar>r' - r\<bar>" by (simp add: abs_mult)
  moreover have "\<bar>r' - r\<bar> < 1 * h" using assms by simp
  ultimately have "\<bar>x - x'\<bar> * h < 1 * h" by simp
  then have "\<bar>x - x'\<bar> < 1" using \<open>0 < h\<close> by (simp only: mult_less_cancel_right)
  then have "x = x'" by simp
  with assms show ?thesis by simp
qed

lemma idx2_bound:
  fixes x r h w :: int
  assumes "0 \<le> r" "r < h" "0 \<le> x" "x < w"
  shows "0 \<le> x * h + r \<and> x * h + r < w * h"
proof -
  have "x * h + r < (x + 1) * h" using assms by (simp add: algebra_simps)
  also have "\<dots> \<le> w * h" using assms by (intro mult_right_mono) auto
  finally show ?thesis using assms by simp
qed

lemma idx2_nat_less:
  fixes x r h w :: int
  assumes "0 \<le> r" "r < h" "0 \<le> x" "x < w"
  shows "nat (x * h + r) < nat w * nat h"
proof -
  have "nat (x * h + r) < nat (w * h)"
    using idx2_bound [OF assms] by simp
  then show ?thesis using assms by (simp add: nat_mult_distrib)
qed

lemma inj_on_idx2:
  fixes s :: int
  assumes rng: "\<And>p. p \<in> A \<Longrightarrow> 0 \<le> r p \<and> r p < s \<and> 0 \<le> q p"
    and inj: "inj_on (\<lambda>p. (q p, r p)) A"
  shows "inj_on (\<lambda>p. nat (q p * s + r p)) A"
proof (rule inj_onI)
  fix a b
  assume ab: "a \<in> A" "b \<in> A" and eq: "nat (q a * s + r a) = nat (q b * s + r b)"
  have "0 \<le> q a * s + r a" "0 \<le> q b * s + r b"
    using rng [OF ab(1)] rng [OF ab(2)] by auto
  with eq have "q a * s + r a = q b * s + r b" by linarith
  then have "q a = q b \<and> r a = r b"
    using idx2_inj [of "r a" s "r b" "q a" "q b"] rng [OF ab(1)] rng [OF ab(2)] by simp
  then show "a = b" using inj ab by (auto dest: inj_onD)
qed

lemma rot90_length: "length (rot90_loop src w h ow d) = length d"
  unfolding rot90_loop_def Let_def by (rule loop2_length)

lemma rot270_length: "length (rot270_loop src w h ow d) = length d"
  unfolding rot270_loop_def Let_def by (rule loop2_length)

lemma rot180_length: "length (rot180_loop src w h d) = length d"
  unfolding rot180_loop_def by (rule loop2_length)

lemma rot90_nth:
  assumes "0 \<le> x" "x < w" "0 \<le> y" "y < h" "length d = nat w * nat h"
  shows "rot90_loop src w h h d ! nat (x * h + (h - 1 - y)) = src ! nat (y * w + x)"
proof -
  let ?idx = "\<lambda>y x. nat (x * h + (h - 1 - y))"
  have "inj_on (\<lambda>p. nat (snd p * h + (h - 1 - fst p))) (set [0..h - 1] \<times> set [0..w - 1])"
    by (rule inj_on_idx2) (auto simp: inj_on_def)
  then have inj: "inj_on (\<lambda>(y, x). ?idx y x) (set [0..h - 1] \<times> set [0..w - 1])"
    by (simp add: case_prod_unfold)
  have lt: "?idx y x < length d"
    using idx2_nat_less [of "h - 1 - y" h x w] assms by (simp add: mult.commute)
  show ?thesis
    unfolding rot90_loop_def Let_def
    using loop2_nth [where idx = ?idx and ys = "[0..h - 1]" and xs = "[0..w - 1]" and y = y and x = x
        and val = "\<lambda>y x. src ! nat (y * w + x)", OF inj _ _ _ _ lt] assms
    by simp
qed

lemma rot270_nth:
  assumes "0 \<le> x" "x < w" "0 \<le> y" "y < h" "length d = nat w * nat h"
  shows "rot270_loop src w h h d ! nat ((w - 1 - x) * h + y) = src ! nat (y * w + x)"
proof -
  let ?idx = "\<lambda>y x. nat ((w - 1 - x) * h + y)"
  have "inj_on (\<lambda>p. nat ((w - 1 - snd p) * h + fst p)) (set [0..h - 1] \<times> set [0..w - 1])"
    by (rule inj_on_idx2) (auto simp: inj_on_def)
  then have inj: "inj_on (\<lambda>(y, x). ?idx y x) (set [0..h - 1] \<times> set [0..w - 1])"
    by (simp add: case_prod_unfold)
  have lt: "?idx y x < length d"
    using idx2_nat_less [of y h "w - 1 - x" w] assms by (simp add: mult.commute)
  show ?thesis
    unfolding rot270_loop_def Let_def
    using loop2_nth [where idx = ?idx and ys = "[0..h - 1]" and xs = "[0..w - 1]" and y = y and x = x
        and val = "\<lambda>y x. src ! nat (y * w + x)", OF inj _ _ _ _ lt] assms
    by simp
qed

lemma rot180_nth:
  assumes "0 \<le> x" "x < w" "0 \<le> y" "y < h" "length d = nat w * nat h"
  shows "rot180_loop src w h d ! nat ((h - 1 - y) * w + (w - 1 - x)) = src ! nat (y * w + x)"
proof -
  let ?idx = "\<lambda>y x. nat ((h - 1 - y) * w + (w - 1 - x))"
  have "inj_on (\<lambda>p. nat ((h - 1 - fst p) * w + (w - 1 - snd p))) (set [0..h - 1] \<times> set [0..w - 1])"
    by (rule inj_on_idx2) (auto simp: inj_on_def)
  then have inj: "inj_on (\<lambda>(y, x). ?idx y x) (set [0..h - 1] \<times> set [0..w - 1])"
    by (simp add: case_prod_unfold)
  have lt: "?idx y x < length d"
    using idx2_nat_less [of "w - 1 - x" w "h - 1 - y" h] assms by (simp add: mult.commute)
  show ?thesis
    unfolding rot180_loop_def
    using loop2_nth [where idx = ?idx and ys = "[0..h - 1]" and xs = "[0..w - 1]" and y = y and x = x
        and val = "\<lambda>y x. src ! nat (y * w + x)", OF inj _ _ _ _ lt] assms
    by simp
qed

text \<open>Every index below w*h is y*w + x for a unique pixel (x, y).\<close>
lemma index_split:
  fixes w h :: int
  assumes "0 \<le> w" "0 \<le> h" "i < nat w * nat h"
  obtains x y where "0 \<le> x" "x < w" "0 \<le> y" "y < h" "i = nat (y * w + x)"
proof -
  have w: "0 < nat w" using assms by (cases "nat w = 0") auto
  let ?x = "int (i mod nat w)" and ?y = "int (i div nat w)"
  have "i mod nat w < nat w" using w by simp
  then have 1: "0 \<le> ?x" "?x < w" by linarith+
  have 2: "0 \<le> ?y" by simp
  have "i div nat w < nat h"
    using assms(3) w by (simp add: div_less_iff_less_mult mult.commute)
  then have 3: "?y < h" by simp
  have "int i = ?y * w + ?x" using w by (simp add: of_nat_div of_nat_mod)
  then have 4: "i = nat (?y * w + ?x)" by linarith
  show ?thesis using that [OF 1 2 3 4] .
qed

text \<open>
  Claim C7. For a buffer \<open>X\<close> of \<open>w * h\<close> samples, rotating by 90 degrees and then by 270
  degrees gives back \<open>X\<close> with its dimensions, and so does rotating by 180 degrees twice.
\<close>

theorem rotateGray_roundtrip:
  assumes "0 \<le> w" "0 \<le> h" "length X = nat w * nat h"
  shows "(case rotateGray X w h 90 of (Y, w', h') \<Rightarrow> rotateGray Y w' h' 270) = (X, w, h)
       \<and> (case rotateGray X w h 180 of (Y, w', h') \<Rightarrow> rotateGray Y w' h' 180) = (X, w, h)"
proof -
  let ?z = "\<lambda>n. replicate n (0::byte)"
  let ?Y = "rot90_loop X w h h (?z (nat h * nat w))"
  let ?Z = "rot270_loop ?Y h w w (?z (nat w * nat h))"
  have lenY: "length ?Y = nat h * nat w" by (simp add: rot90_length)
  have "?Z = X"
  proof (rule nth_equalityI)
    show "length ?Z = length X" using assms by (simp add: rot270_length)
  next
    fix i assume "i < length ?Z"
    then have i: "i < nat w * nat h" by (simp add: rot270_length)
    from index_split [OF assms(1,2) i] obtain x y
      where xy: "0 \<le> x" "x < w" "0 \<le> y" "y < h" "i = nat (y * w + x)" by blast
    have "?Z ! nat ((h - 1 - (h - 1 - y)) * w + x) = ?Y ! nat (x * h + (h - 1 - y))"
      using rot270_nth [of "h - 1 - y" h x w "?z (nat w * nat h)" ?Y] xy
      by (simp add: mult.commute)
    also have "\<dots> = X ! nat (y * w + x)"
      using rot90_nth [of x w y h "?z (nat h * nat w)" X] xy by (simp add: mult.commute)
    finally show "?Z ! i = X ! i" using xy by simp
  qed
  then have A: "(case rotateGray X w h 90 of (Y, w', h') \<Rightarrow> rotateGray Y w' h' 270) = (X, w, h)"
    by (simp add: rotateGray_def normRot_def Let_def)
  let ?U = "rot180_loop X w h (?z (nat w * nat h))"
  let ?V = "rot180_loop ?U w h (?z (nat w * nat h))"
  have "?V = X"
  proof (rule nth_equalityI)
    show "length ?V = length X" using assms by (simp add: rot180_length)
  next
    fix i assume "i < length ?V"
    then have i: "i < nat w * nat h" by (simp add: rot180_length)
    from index_split [OF assms(1,2) i] obtain x y
      where xy: "0 \<le> x" "x < w" "0 \<le> y" "y < h" "i = nat (y * w + x)" by blast
    have "?V ! nat ((h - 1 - (h - 1 - y)) * w + (w - 1 - (w - 1 - x)))
          = ?U ! nat ((h - 1 - y) * w + (w - 1 - x))"
      using rot180_nth [of "w - 1 - x" w "h - 1 - y" h "?z (nat w * nat h)" ?U] xy
      by simp
    also have "\<dots> = X ! nat (y * w + x)"
      using rot180_nth [of x w y h "?z (nat w * nat h)" X] xy by simp
    finally show "?V ! i = X ! i" using xy by simp
  qed
  then have B: "(case rotateGray X w h 180 of (Y, w', h') \<Rightarrow> rotateGray Y w' h' 180) = (X, w, h)"
    by (simp add: rotateGray_def normRot_def Let_def)
  from A B show ?thesis by simp
qed


theorem rotateGray_roundtrip_witness:
  "(case rotateGray [1,2,3,4,5,6] 3 2 90 of (Y, w', h') \<Rightarrow> rotateGray Y w' h' 270) = ([1,2,3,4,5,6], 3, 2)
       \<and> (case rotateGray [1,2,3,4,5,6] 3 2 180 of (Y, w', h') \<Rightarrow> rotateGray Y w' h' 180) = ([1,2,3,4,5,6], 3, 2)"
  using rotateGray_roundtrip [of 3 2 "[1,2,3,4,5,6]"] by simp

section \<open>Left and right margins\<close>

text \<open>
  Claim C8 (as amended). For every buffer, width and height, the left and the right margin
  returned by \<open>measureWhiteMargins\<close> are each at most the buffer width, and each is even
  or equal to the buffer width (the clamp \<open>std::min(m, width)\<close> cuts an even count down to
  an odd width).
\<close>

theorem measureWhiteMargins_left_right:
  "m_left (measureWhiteMargins src width height) \<le> width
   \<and> m_right (measureWhiteMargins src width height) \<le> width
   \<and> (even (m_left (measureWhiteMargins src width height))
        \<or> m_left (measureWhiteMargins src width height) = width)
   \<and> (even (m_right (measureWhiteMargins src width height))
        \<or> m_right (measureWhiteMargins src width height) = width)"
  by (simp add: measureWhiteMargins_def Let_def min_def)

theorem measureWhiteMargins_left_right_witness:
  "m_left (measureWhiteMargins exData 3 2) \<le> 3
   \<and> m_right (measureWhiteMargins exData 3 2) \<le> 3
   \<and> (even (m_left (measureWhiteMargins exData 3 2)) \<or> m_left (measureWhiteMargins exData 3 2) = 3)
   \<and> (even (m_right (measureWhiteMargins exData 3 2)) \<or> m_right (measureWhiteMargins exData 3 2) = 3)"
  using measureWhiteMargins_left_right [of exData 3 2] by simp

text \<open>
  The claim as written (both margins always even) fails on an all-white buffer three
  samples wide and two high: the columns 0 and 2 are white, the count 4 is clamped to 3.
\<close>

theorem measureWhiteMargins_odd_counterexample:
  "\<not> even (m_left (measureWhiteMargins [255, 255, 255, 255, 255, 255] 3 2))"
  by code_simp


section \<open>The padding plan\<close>

lemma distinct_remdups_adj_sorted:
  fixes xs :: "int list"
  shows "sorted xs \<Longrightarrow> distinct (remdups_adj xs)"
  by (induction xs rule: remdups_adj.induct) auto

lemma sortPads_ascending: "sorted (sortPads False xs) \<and> distinct (sortPads False xs)"
  by (simp add: sortPads_def distinct_remdups_adj_sorted)

lemma sortPads_descending: "sorted (rev (sortPads True xs)) \<and> distinct (sortPads True xs)"
proof -
  have "sortPads True xs = rev (remdups_adj (sort xs))"
    by (simp add: sortPads_def remdups_adj_rev)
  then show ?thesis by (simp add: distinct_remdups_adj_sorted)
qed

lemma sortPads_set: "set (sortPads d xs) = set xs"
  by (simp add: sortPads_def)

text \<open>
  Claim C4. Whatever the margins, the effort flag and the base padding, the padding list of
  the primary entry point holds exactly the candidates that were pushed, each once, sorted
  ascending when some margin is nonzero and descending when all four margins are zero; the
  list of the diagnostic entry point holds exactly its pushed candidates, each once, sorted
  ascending in every case.
\<close>

theorem pads_sorted:
  "(\<not> qzZero m \<longrightarrow> sorted (padsOf th m bp cap))
   \<and> (qzZero m \<longrightarrow> sorted (rev (padsOf th m bp cap)))
   \<and> distinct (padsOf th m bp cap)
   \<and> set (padsOf th m bp cap) = set (padsPushed th m bp cap)
   \<and> sorted (debugPadsOf th' m' bp' cap')
   \<and> distinct (debugPadsOf th' m' bp' cap')
   \<and> set (debugPadsOf th' m' bp' cap') = set (debugPadsPushed th' m' bp' cap')"
  using sortPads_ascending sortPads_descending
  by (cases "qzZero m") (simp_all add: padsOf_def debugPadsOf_def sortPads_set)

theorem pads_sorted_witness:
  "qzZero \<lparr>m_top = 0, m_bottom = 0, m_left = 0, m_right = 0\<rparr>
   \<and> sorted (rev (padsOf True \<lparr>m_top = 0, m_bottom = 0, m_left = 0, m_right = 0\<rparr> 128 512))
   \<and> distinct (padsOf True \<lparr>m_top = 0, m_bottom = 0, m_left = 0, m_right = 0\<rparr> 128 512)
   \<and> set (padsOf True \<lparr>m_top = 0, m_bottom = 0, m_left = 0, m_right = 0\<rparr> 128 512)
       = {0, 64, 128, 256, 384, 512}
   \<and> \<not> qzZero \<lparr>m_top = 0, m_bottom = 1, m_left = 0, m_right = 0\<rparr>
   \<and> sorted (padsOf True \<lparr>m_top = 0, m_bottom = 1, m_left = 0, m_right = 0\<rparr> 32 192)
   \<and> distinct (padsOf True \<lparr>m_top = 0, m_bottom = 1, m_left = 0, m_right = 0\<rparr> 32 192)
   \<and> set (padsOf True \<lparr>m_top = 0, m_bottom = 1, m_left = 0, m_right = 0\<rparr> 32 192)
       = {0, 10, 16, 32, 64, 96, 128, 192}
   \<and> sorted (debugPadsOf True \<lparr>m_top = 0, m_bottom = 0, m_left = 0, m_right = 0\<rparr> 96 512)
   \<and> set (debugPadsOf True \<lparr>m_top = 0, m_bottom = 0, m_left = 0, m_right = 0\<rparr> 96 512)
       = {0, 48, 96, 192, 288, 384}"
proof -
  have z: "qzZero \<lparr>m_top = 0, m_bottom = 0, m_left = 0, m_right = 0\<rparr>"
    "\<not> qzZero \<lparr>m_top = 0, m_bottom = 1, m_left = 0, m_right = 0\<rparr>"
    by (simp_all add: qzZero_def)
  have p1: "set (padsPushed True \<lparr>m_top = 0, m_bottom = 0, m_left = 0, m_right = 0\<rparr> 128 512)
              = {0, 64, 128, 256, 384, 512}"
    by code_simp
  have p2: "set (padsPushed True \<lparr>m_top = 0, m_bottom = 1, m_left = 0, m_right = 0\<rparr> 32 192)
              = {0, 10, 16, 32, 64, 96, 128, 192}"
    by code_simp
  have p3: "set (debugPadsPushed True \<lparr>m_top = 0, m_bottom = 0, m_left = 0, m_right = 0\<rparr> 96 512)
              = {0, 48, 96, 192, 288, 384}"
    by code_simp
  show ?thesis
    using pads_sorted [of "\<lparr>m_top = 0, m_bottom = 0, m_left = 0, m_right = 0\<rparr>" True 128 512
            True "\<lparr>m_top = 0, m_bottom = 0, m_left = 0, m_right = 0\<rparr>" 96 512]
          pads_sorted [of "\<lparr>m_top = 0, m_bottom = 1, m_left = 0, m_right = 0\<rparr>" True 32 192
            True "\<lparr>m_top = 0, m_bottom = 0, m_left = 0, m_right = 0\<rparr>" 96 512]
          z p1 p2 p3
    by simp
qed

section \<open>The micro-variant fallback\<close>

text \<open>
  Claim C6. When the result of a decode attempt has the Micro format, is not valid and has
  error kind format, \<open>retryAsQRCodeIfMicroInvalid\<close> calls the primitive exactly once more, on
  the same image, with the formats option set to the non-micro variant alone; the result of
  the retry replaces the original exactly when the retry detected a format and is valid or
  has a non-empty text, and the original is kept otherwise. At every call site
  (\<open>readWithRetry\<close>) the attempt is therefore the first read, that one retry, and the
  result chosen.
\<close>

theorem retry_micro:
  assumes "format current = MicroQRCode" "\<not> isValid current" "errorType current = Format"
  shows "retryAsQRCodeIfMicroInvalid rd img opts current =
          (let retry = rd img (opts\<lparr>formats := {QRCode}\<rparr>)
           in (if format retry \<noteq> FormatNone \<and> (isValid retry \<or> textOf retry \<noteq> [])
               then retry else current,
               [ReadBarcode img (opts\<lparr>formats := {QRCode}\<rparr>)]))
       \<and> (rd img opts = current \<longrightarrow>
            readWithRetry rd img opts =
              (let retry = rd img (opts\<lparr>formats := {QRCode}\<rparr>);
                   b = (if format retry \<noteq> FormatNone \<and> (isValid retry \<or> textOf retry \<noteq> [])
                        then retry else current)
               in (b, [ReadBarcode img opts, ReadBarcode img (opts\<lparr>formats := {QRCode}\<rparr>),
                       Attempt b])))"
  using assms by (simp add: retryAsQRCodeIfMicroInvalid_def readWithRetry_def Let_def)

theorem retry_micro_witness:
  "retryAsQRCodeIfMicroInvalid rdPipe exImage (generalOptions True) microFormatError
     = (pipeBarcode, [ReadBarcode exImage ((generalOptions True)\<lparr>formats := {QRCode}\<rparr>)])
   \<and> retryAsQRCodeIfMicroInvalid rdNone exImage (generalOptions True) microFormatError
     = (microFormatError, [ReadBarcode exImage ((generalOptions True)\<lparr>formats := {QRCode}\<rparr>)])"
  using retry_micro [of microFormatError rdPipe exImage "generalOptions True"]
        retry_micro [of microFormatError rdNone exImage "generalOptions True"]
  by (simp add: microFormatError_def emptyBarcode_def rdPipe_def rdNone_def pipeBarcode_def Let_def)

section \<open>Input validation\<close>

text \<open>
  Claim C9. On a null buffer, a non-positive width or height, a buffer shorter than width
  times height, or a region of interest whose clamped area is zero, the primary entry point
  returns the absence of a result and its trace is empty: \<open>cropGray\<close> is not called and the
  decode primitive is not called.
\<close>

theorem invalid_input:
  assumes "gray = None \<or> width \<le> 0 \<or> height \<le> 0
           \<or> (\<exists>data. gray = Some data \<and> length data < nat width * nat height)
           \<or> (let roi = clampRect \<lparr>r_left = roiLeft, r_top = roiTop, r_right = roiRight,
                                     r_bottom = roiBottom\<rparr> width height
               in (r_right roi - r_left roi) * (r_bottom roi - r_top roi) = 0)"
  shows "decodeGray rd pinned gray width height rotationDegrees roiLeft roiTop roiRight roiBottom th
           = (None, [])"
  using assms by (auto simp: decodeGray_def Let_def split: option.splits)

theorem invalid_input_witness:
  "decodeGray rdPipe True None 3 2 0 0 0 3 2 True = (None, [])
   \<and> decodeGray rdPipe True (Some exData) 0 2 0 0 0 3 2 True = (None, [])
   \<and> decodeGray rdPipe True (Some exData) 3 3 0 0 0 3 2 True = (None, [])
   \<and> decodeGray rdPipe True (Some exData) 3 2 0 5 0 9 2 True = (None, [])"
  using invalid_input [of None 3 2 0 0 3 2 rdPipe True 0 True]
        invalid_input [of "Some exData" 0 2 0 0 3 2 rdPipe True 0 True]
        invalid_input [of "Some exData" 3 3 0 0 3 2 rdPipe True 0 True]
        invalid_input [of "Some exData" 3 2 5 0 9 2 rdPipe True 0 True]
  by (simp add: exData_def clampRect_def clamp_def)

text \<open>
  Claim C10. The diagnostic entry point returns a string on every input. On the inputs
  that the primary entry point rejects it returns a marker: \<open>null-gray\<close> for a null buffer,
  \<open>bad-size\<close> for a non-positive dimension, \<open>bad-len\<close> for a short buffer, \<open>no-bytes\<close> when
  the array elements cannot be obtained, \<open>empty-roi\<close> for a region of zero clamped area; the
  five markers are pairwise different.
\<close>

theorem debug_never_null:
  "fst (decodeGrayDebug rd pinned gray width height rotationDegrees roiLeft roiTop roiRight roiBottom th)
     \<noteq> None
   \<and> (gray = None \<longrightarrow>
        decodeGrayDebug rd pinned gray width height rotationDegrees roiLeft roiTop roiRight roiBottom th
          = (Some ''null-gray'', []))
   \<and> (gray \<noteq> None \<and> (width \<le> 0 \<or> height \<le> 0) \<longrightarrow>
        decodeGrayDebug rd pinned gray width height rotationDegrees roiLeft roiTop roiRight roiBottom th
          = (Some ''bad-size'', []))
   \<and> (0 < width \<and> 0 < height \<and> (\<exists>data. gray = Some data \<and> length data < nat width * nat height) \<longrightarrow>
        decodeGrayDebug rd pinned gray width height rotationDegrees roiLeft roiTop roiRight roiBottom th
          = (Some ''bad-len'', []))
   \<and> (0 < width \<and> 0 < height \<and> (\<exists>data. gray = Some data \<and> nat width * nat height \<le> length data)
        \<and> \<not> pinned \<longrightarrow>
        decodeGrayDebug rd pinned gray width height rotationDegrees roiLeft roiTop roiRight roiBottom th
          = (Some ''no-bytes'', []))
   \<and> (0 < width \<and> 0 < height \<and> (\<exists>data. gray = Some data \<and> nat width * nat height \<le> length data)
        \<and> pinned
        \<and> (let roi = clampRect \<lparr>r_left = roiLeft, r_top = roiTop, r_right = roiRight,
                                  r_bottom = roiBottom\<rparr> width height
             in (r_right roi - r_left roi) * (r_bottom roi - r_top roi) = 0) \<longrightarrow>
        decodeGrayDebug rd pinned gray width height rotationDegrees roiLeft roiTop roiRight roiBottom th
          = (Some ''empty-roi'', []))
   \<and> distinct [''null-gray'', ''bad-size'', ''bad-len'', ''no-bytes'', ''empty-roi'']"
  by (auto simp: decodeGrayDebug_def Let_def case_prod_beta split: option.splits)

theorem debug_never_null_witness:
  "decodeGrayDebug rdPipe True None 3 2 0 0 0 3 2 True = (Some ''null-gray'', [])
   \<and> decodeGrayDebug rdPipe True (Some exData) 0 2 0 0 0 3 2 True = (Some ''bad-size'', [])
   \<and> decodeGrayDebug rdPipe True (Some exData) 3 3 0 0 0 3 2 True = (Some ''bad-len'', [])
   \<and> decodeGrayDebug rdPipe False (Some exData) 3 2 0 0 0 3 2 True = (Some ''no-bytes'', [])
   \<and> decodeGrayDebug rdPipe True (Some exData) 3 2 0 5 0 9 2 True = (Some ''empty-roi'', [])
   \<and> fst (decodeGrayDebug rdPipe True (Some exData) 3 2 0 0 0 3 2 True) \<noteq> None"
  using debug_never_null [of rdPipe True None 3 2 0 0 0 3 2 True]
        debug_never_null [of rdPipe True "Some exData" 0 2 0 0 0 3 2 True]
        debug_never_null [of rdPipe True "Some exData" 3 3 0 0 0 3 2 True]
        debug_never_null [of rdPipe False "Some exData" 3 2 0 0 0 3 2 True]
        debug_never_null [of rdPipe True "Some exData" 3 2 0 5 0 9 2 True]
        debug_never_null [of rdPipe True "Some exData" 3 2 0 0 0 3 2 True]
  by (simp add: exData_def clampRect_def clamp_def)

section \<open>The best-invalid tracker\<close>

lemma attempts_append: "attempts (xs @ ys) = attempts xs @ attempts ys"
  by (induction xs rule: attempts.induct) auto

lemma find_app:
  "find P (xs @ ys) = (case find P xs of None \<Rightarrow> find P ys | Some x \<Rightarrow> Some x)"
  by (induction xs) auto

lemma track_append: "track (track t xs) ys = track t (xs @ ys)"
  by (cases t) (auto simp: track_def find_app split: option.splits)

lemma track_Nil: "track t [] = t"
  by (cases t) (auto simp: track_def)

lemma attempts_retry:
  "attempts (snd (retryAsQRCodeIfMicroInvalid rd img opts b)) = []"
  by (simp add: retryAsQRCodeIfMicroInvalid_def Let_def)

lemma attempts_readWithRetry:
  "attempts (snd (readWithRetry rd img opts)) = [fst (readWithRetry rd img opts)]"
  using attempts_retry [of rd img opts "rd img opts"]
  by (simp add: readWithRetry_def Let_def case_prod_beta attempts_append)

lemma attempt_tracker:
  assumes "attempt rd img opts pad scale st = (st', evs)"
  shows "attempts evs = [barcode st'] \<and> tracker st' = track (tracker st) (attempts evs)
         \<and> barcode st' = fst (readWithRetry rd img opts) \<and> evs = snd (readWithRetry rd img opts)"
  using assms attempts_readWithRetry [of rd img opts]
  by (auto simp: attempt_def Let_def case_prod_beta tracker_def track_def split: if_splits)

lemma escalate_tracker:
  assumes "escalate rd th img f pad scale (opts, st, evs) = (opts', st', evs')"
  shows "\<exists>new. evs' = evs @ new \<and> tracker st' = track (tracker st) (attempts new)"
proof (cases "format (barcode st) = FormatNone \<and> th")
  case False
  with assms have "evs' = evs @ []" "st' = st" by (auto simp: escalate_def)
  then show ?thesis by (metis attempts.simps(1) track_Nil)
next
  case True
  obtain st1 new where a: "attempt rd img (f opts) pad scale st = (st1, new)"
    by (cases "attempt rd img (f opts) pad scale st") auto
  from attempt_tracker [OF a] have t: "tracker st1 = track (tracker st) (attempts new)" by simp
  from assms True a have "evs' = evs @ new"
    and "st' = (if errorType (barcode st1) = Format then st1\<lparr>barcode := emptyBarcode\<rparr> else st1)"
    by (auto simp: escalate_def Let_def)
  then have "evs' = evs @ new" "tracker st' = tracker st1" by (auto simp: tracker_def)
  with t show ?thesis by auto
qed

lemma decodeAtScale_tracker:
  assumes "decodeAtScale rd th img pad scale st = (st', evs)"
  shows "tracker st' = track (tracker st) (attempts evs)"
proof -
  let ?o = "generalOptions th"
  obtain st1 e1 where a: "attempt rd img ?o pad scale st = (st1, e1)"
    by (cases "attempt rd img ?o pad scale st") auto
  define st1' where "st1' = (if errorType (barcode st1) = Format \<and> \<not> th then st1\<lparr>barcode := emptyBarcode\<rparr> else st1)"
  have t1: "tracker st1' = track (tracker st) (attempts e1)"
    using attempt_tracker [OF a] by (auto simp: st1'_def tracker_def)
  obtain o2 st2 e2 where s2: "escalate rd th img (\<lambda>opts. opts\<lparr>binarizer := GlobalHistogram\<rparr>) pad scale (?o, st1', e1) = (o2, st2, e2)"
    using prod_cases3 by blast
  obtain o3 st3 e3 where s3: "escalate rd th img (\<lambda>opts. opts\<lparr>binarizer := FixedThreshold\<rparr>) pad scale (o2, st2, e2) = (o3, st3, e3)"
    using prod_cases3 by blast
  obtain o4 st4 e4 where s4: "escalate rd th img (\<lambda>opts. opts\<lparr>tryRotate := True, binarizer := LocalAverage\<rparr>) pad scale (o3, st3, e3) = (o4, st4, e4)"
    using prod_cases3 by blast
  obtain o5 st5 e5 where s5: "escalate rd th img (\<lambda>opts. opts\<lparr>tryRotate := True, binarizer := FixedThreshold\<rparr>) pad scale (o4, st4, e4) = (o5, st5, e5)"
    using prod_cases3 by blast
  have r: "st' = st5" "evs = e5"
    using assms a s2 s3 s4 s5 by (simp_all add: decodeAtScale_def Let_def st1'_def)
  from escalate_tracker [OF s2] obtain n2 where n2: "e2 = e1 @ n2" "tracker st2 = track (tracker st1') (attempts n2)" by blast
  from escalate_tracker [OF s3] obtain n3 where n3: "e3 = e2 @ n3" "tracker st3 = track (tracker st2) (attempts n3)" by blast
  from escalate_tracker [OF s4] obtain n4 where n4: "e4 = e3 @ n4" "tracker st4 = track (tracker st3) (attempts n4)" by blast
  from escalate_tracker [OF s5] obtain n5 where n5: "e5 = e4 @ n5" "tracker st5 = track (tracker st4) (attempts n5)" by blast
  show ?thesis
    using t1 n2 n3 n4 n5 r by (simp add: track_append attempts_append)
qed

lemma scaleLoop_tracker:
  assumes "scaleLoop rd th padded pw ph pad scales st = (st', r, evs)"
  shows "tracker st' = track (tracker st) (attempts evs)
         \<and> (r \<noteq> None \<longrightarrow> format (barcode st') \<noteq> FormatNone)
         \<and> (format (barcode st) = FormatNone \<longrightarrow> r = None \<longrightarrow> format (barcode st') = FormatNone)"
  using assms
proof (induction scales arbitrary: st st' r evs)
  case Nil
  then show ?case by (simp add: track_Nil)
next
  case (Cons scale rest)
  obtain st1 e1 where d: "decodeAtScale rd th (scaledImage padded pw ph scale) pad scale st = (st1, e1)"
    by (cases "decodeAtScale rd th (scaledImage padded pw ph scale) pad scale st") auto
  note t1 = decodeAtScale_tracker [OF d]
  show ?case
  proof (cases "format (barcode st1) \<noteq> FormatNone")
    case True
    with Cons.prems d have "st' = st1" "r = Some scale" "evs = e1" by (simp_all add: Let_def)
    with t1 True show ?thesis by simp
  next
    case False
    obtain st2 r2 e2 where l: "scaleLoop rd th padded pw ph pad rest st1 = (st2, r2, e2)"
      using prod_cases3 by blast
    with Cons.prems d False have eq: "st' = st2" "r = r2" "evs = e1 @ e2" by (simp_all add: Let_def)
    from Cons.IH [OF l] False t1 eq show ?thesis
      by (simp add: track_append attempts_append)
  qed
qed

lemma padLoop_tracker:
  assumes "padLoop rd th qz0 qzS base baseW baseH pads st = (st', r, evs)"
  shows "tracker st' = track (tracker st) (attempts evs)
         \<and> (r \<noteq> None \<longrightarrow> format (barcode st') \<noteq> FormatNone)
         \<and> (format (barcode st) = FormatNone \<longrightarrow> r = None \<longrightarrow> format (barcode st') = FormatNone)"
  using assms
proof (induction pads arbitrary: st st' r evs)
  case Nil
  then show ?case by (simp add: track_Nil)
next
  case (Cons pad rest)
  obtain padded pw ph where b: "addWhiteBorder base baseW baseH pad = (padded, pw, ph)"
    using prod_cases3 by blast
  obtain st1 r1 e1 where s: "scaleLoop rd th padded pw ph pad (scalesOf th qz0 qzS pw ph) st = (st1, r1, e1)"
    using prod_cases3 by blast
  note t1 = scaleLoop_tracker [OF s]
  show ?case
  proof (cases r1)
    case (Some scale)
    with Cons.prems b s have "st' = st1" "r = Some (pad, scale)" "evs = e1" by (simp_all add: Let_def)
    with t1 Some show ?thesis by simp
  next
    case None
    obtain st2 r2 e2 where l: "padLoop rd th qz0 qzS base baseW baseH rest st1 = (st2, r2, e2)"
      using prod_cases3 by blast
    with Cons.prems b s None have eq: "st' = st2" "r = r2" "evs = e1 @ e2" by (simp_all add: Let_def)
    from Cons.IH [OF l] None t1 eq show ?thesis
      by (simp add: track_append attempts_append)
  qed
qed

text \<open>
  Claim C5. Over one run of the padding, scale and escalation loops: a tracker that is set
  is never replaced; a tracker that starts empty ends as the first attempt result, in
  evaluation order, that detected a format and is not valid (and stays empty when there
  is none); and the tracked result is promoted to the final result only when the loops end
  without a \<open>break\<close>, that is, when no scale iteration ends with a detected format that
  survived the resets.
\<close>

theorem best_invalid_tracker:
  assumes "padLoop rd th qz0 qzS base baseW baseH pads st0 = (st, r, evs)"
  shows "(haveInvalid st0 \<longrightarrow> haveInvalid st \<and> bestInvalid st = bestInvalid st0)
       \<and> (\<not> haveInvalid st0 \<longrightarrow>
            (if haveInvalid st then Some (bestInvalid st) else None)
              = find (\<lambda>b. format b \<noteq> FormatNone \<and> \<not> isValid b) (attempts evs))
       \<and> (format (barcode st0) = FormatNone \<longrightarrow> (r = None \<longleftrightarrow> format (barcode st) = FormatNone))
       \<and> fst (promote st r)
            = (if r = None \<and> haveInvalid st \<and> format (barcode st) = FormatNone
               then bestInvalid st else barcode st)"
proof -
  note p = padLoop_tracker [OF assms]
  have 1: "haveInvalid st0 \<longrightarrow> haveInvalid st \<and> bestInvalid st = bestInvalid st0"
    using p by (auto simp: tracker_def track_def split: if_splits)
  have 2: "\<not> haveInvalid st0 \<longrightarrow>
            (if haveInvalid st then Some (bestInvalid st) else None)
              = find (\<lambda>b. format b \<noteq> FormatNone \<and> \<not> isValid b) (attempts evs)"
    using p by (auto simp: tracker_def track_def split: if_splits)
  have 3: "format (barcode st0) = FormatNone \<longrightarrow> (r = None \<longleftrightarrow> format (barcode st) = FormatNone)"
    using p by blast
  have 4: "fst (promote st r)
            = (if r = None \<and> haveInvalid st \<and> format (barcode st) = FormatNone
               then bestInvalid st else barcode st)"
    using p by (auto simp: promote_def Let_def split: option.splits prod.splits)
  from 1 2 3 4 show ?thesis by blast
qed

lemma border_zero: "addWhiteBorder src w h 0 = (take (nat w * nat h) src, w, h)"
  by (simp add: addWhiteBorder_def)

lemma readWithRetry_fe:
  "readWithRetry rdFormatError img opts = (formatErrorBarcode, [ReadBarcode img opts, Attempt formatErrorBarcode])"
  by (simp add: readWithRetry_def retryAsQRCodeIfMicroInvalid_def rdFormatError_def formatErrorBarcode_def Let_def)

lemma ex_low_scales: "scalesOf False False False 1 1 = 1 # []"
  by code_simp

lemma ex_low_loop:
  "padLoop rdFormatError False False False [0] 1 1 [0] initLocals =
     (initLocals\<lparr>barcode := emptyBarcode, bestInvalid := formatErrorBarcode, haveInvalid := True,
                  bestInvalidPad := 0, bestInvalidScale := 1\<rparr>,
      None,
      [ReadBarcode \<lparr>iv_data = [0], iv_width = 1, iv_height = 1\<rparr> (generalOptions False),
       Attempt formatErrorBarcode])"
  by (simp add: border_zero ex_low_scales scaledImage_def decodeAtScale_def escalate_def
        attempt_def readWithRetry_fe Let_def initLocals_def formatErrorBarcode_def emptyBarcode_def)

theorem best_invalid_tracker_witness:
  "find (\<lambda>b. format b \<noteq> FormatNone \<and> \<not> isValid b)
        (attempts [ReadBarcode \<lparr>iv_data = [0], iv_width = 1, iv_height = 1\<rparr> (generalOptions False),
                   Attempt formatErrorBarcode]) = Some formatErrorBarcode
   \<and> fst (promote (initLocals\<lparr>barcode := emptyBarcode, bestInvalid := formatErrorBarcode,
                               haveInvalid := True, bestInvalidPad := 0, bestInvalidScale := 1\<rparr>) None)
       = formatErrorBarcode"
  using best_invalid_tracker [OF ex_low_loop]
  by (simp add: initLocals_def emptyBarcode_def)

section \<open>Format errors in the orchestrator\<close>

lemma decodeAtScale_first:
  assumes "attempt rd img (generalOptions th) pad scale st = (st1, e1)"
    and "format (barcode st1) \<noteq> FormatNone" and "th \<or> errorType (barcode st1) \<noteq> Format"
  shows "decodeAtScale rd th img pad scale st = (st1, e1)"
  using assms by (auto simp: decodeAtScale_def escalate_def Let_def)

lemma scaleLoop_first:
  assumes "attempt rd (scaledImage padded pw ph scale) (generalOptions th) pad scale st = (st1, e1)"
    and "format (barcode st1) \<noteq> FormatNone" and "th \<or> errorType (barcode st1) \<noteq> Format"
  shows "scaleLoop rd th padded pw ph pad (scale # rest) st = (st1, Some scale, e1)"
  using decodeAtScale_first [OF assms] assms(2) by (simp add: Let_def)

lemma padLoop_first:
  assumes "addWhiteBorder base baseW baseH pad = (padded, pw, ph)"
    and "scalesOf th qz0 qzS pw ph = scale # ss"
    and "attempt rd (scaledImage padded pw ph scale) (generalOptions th) pad scale st = (st1, e1)"
    and "format (barcode st1) \<noteq> FormatNone" and "th \<or> errorType (barcode st1) \<noteq> Format"
  shows "padLoop rd th qz0 qzS base baseW baseH (pad # rest) st = (st1, Some (pad, scale), e1)"
  using scaleLoop_first [OF assms(3,4,5)] assms(1,2) by (simp add: Let_def)

lemma generalPath_first:
  assumes m: "measureWhiteMargins rotated rotW rotH = m"
    and tq: "targetQz th m (max 1 (min rotW rotH)) = tq"
    and base: "addWhiteBorderPerSide rotated rotW rotH (max 0 (tq - m_left m)) (max 0 (tq - m_top m))
                 (max 0 (tq - m_right m)) (max 0 (tq - m_bottom m)) = (base, baseW, baseH)"
    and pads: "padsOf th m (basePad th m (max 1 (min rotW rotH)) tq (padCap m baseW baseH))
                 (padCap m baseW baseH) = pad # rest"
    and pd: "addWhiteBorder base baseW baseH pad = (padded, pw, ph)"
    and sc: "scalesOf th (qzZero m) (qzSuspect m) pw ph = scale # ss"
    and at: "attempt rd (scaledImage padded pw ph scale) (generalOptions th) pad scale initLocals = (st1, e1)"
    and det: "format (barcode st1) \<noteq> FormatNone" "th \<or> errorType (barcode st1) \<noteq> Format"
  shows "generalPath rd th rot roi cropW cropH rotated rotW rotH =
           (Some (resultString th rot roi cropW cropH rotW rotH (max 0 (tq - m_left m))
                    (max 0 (tq - m_top m)) (barcode st1) pad scale),
            MeasureWhiteMargins # e1)"
proof -
  have l: "padLoop rd th (qzZero m) (qzSuspect m) base baseW baseH (pad # rest) initLocals
             = (st1, Some (pad, scale), e1)"
    by (rule padLoop_first [OF pd sc at det])
  have p: "promote st1 (Some (pad, scale)) = (barcode st1, pad, scale)"
    using det by (simp add: promote_def)
  show ?thesis
    unfolding generalPath_def Let_def m tq base prod.case pads l p
    using det by simp
qed

lemma attempt_const:
  assumes "format b = QRCode"
  shows "attempt (\<lambda>img opts. b) img opts pad scale initLocals =
           (if isValid b then initLocals\<lparr>barcode := b\<rparr>
            else initLocals\<lparr>barcode := b, bestInvalid := b, haveInvalid := True,
                             bestInvalidPad := pad, bestInvalidScale := scale\<rparr>,
            [ReadBarcode img opts, Attempt b])"
  using assms
  by (simp add: attempt_def readWithRetry_def retryAsQRCodeIfMicroInvalid_def Let_def initLocals_def)

lemma ex_valid:
  "decodeGray rd True (Some exData) 3 2 0 0 0 3 2 th = primaryPath rd th exData 3 2 exRoi 0"
  by (simp add: decodeGray_def clampRect_def clamp_def exData_def exRoi_def)

lemma ex_crop: "cropGray exData 3 2 exRoi = (exData, 3, 2)"
  by code_simp

lemma ex_rot: "rotateGray exData 3 2 0 = (exData, 3, 2)"
  by code_simp

lemma ex_primary:
  "primaryPath rd th exData 3 2 exRoi 0 =
     (fst (generalPath rd th 0 exRoi 3 2 exData 3 2),
      CropGray # snd (generalPath rd th 0 exRoi 3 2 exData 3 2))"
  by (simp add: primaryPath_def ex_crop ex_rot syntheticCondition_def normRot_def case_prod_beta)

lemma ex_margins:
  "measureWhiteMargins exData 3 2 = \<lparr>m_top = 0, m_bottom = 1, m_left = 0, m_right = 0\<rparr>"
  by code_simp

lemma ex_tq: "targetQz True \<lparr>m_top = 0, m_bottom = 1, m_left = 0, m_right = 0\<rparr> (max 1 (min 3 2)) = 20"
  by code_simp

lemma ex_tq_low: "targetQz False \<lparr>m_top = 0, m_bottom = 1, m_left = 0, m_right = 0\<rparr> (max 1 (min 3 2)) = 14"
  by code_simp

lemma perSide_dims:
  "snd (addWhiteBorderPerSide src w h l t r b) = (w + max 0 l + max 0 r, h + max 0 t + max 0 b)"
  by (simp add: addWhiteBorderPerSide_def Let_def)

lemma ex_pads:
  "padsOf True \<lparr>m_top = 0, m_bottom = 1, m_left = 0, m_right = 0\<rparr>
     (basePad True \<lparr>m_top = 0, m_bottom = 1, m_left = 0, m_right = 0\<rparr> (max 1 (min 3 2)) 20
        (padCap \<lparr>m_top = 0, m_bottom = 1, m_left = 0, m_right = 0\<rparr> 43 41))
     (padCap \<lparr>m_top = 0, m_bottom = 1, m_left = 0, m_right = 0\<rparr> 43 41)
   = 0 # [10, 16, 32, 64, 96, 128, 192]"
  by code_simp

lemma ex_pads_low:
  "padsOf False \<lparr>m_top = 0, m_bottom = 1, m_left = 0, m_right = 0\<rparr>
     (basePad False \<lparr>m_top = 0, m_bottom = 1, m_left = 0, m_right = 0\<rparr> (max 1 (min 3 2)) 14
        (padCap \<lparr>m_top = 0, m_bottom = 1, m_left = 0, m_right = 0\<rparr> 31 29))
     (padCap \<lparr>m_top = 0, m_bottom = 1, m_left = 0, m_right = 0\<rparr> 31 29)
   = 0 # [16, 32]"
  by code_simp

lemma ex_scales:
  "scalesOf True (qzZero \<lparr>m_top = 0, m_bottom = 1, m_left = 0, m_right = 0\<rparr>)
     (qzSuspect \<lparr>m_top = 0, m_bottom = 1, m_left = 0, m_right = 0\<rparr>) 43 41 = 1 # []"
  by code_simp

lemma ex_scales_low:
  "scalesOf False (qzZero \<lparr>m_top = 0, m_bottom = 1, m_left = 0, m_right = 0\<rparr>)
     (qzSuspect \<lparr>m_top = 0, m_bottom = 1, m_left = 0, m_right = 0\<rparr>) 31 29 = 1 # []"
  by code_simp

lemma ex_general_high:
  assumes "format b = QRCode"
  shows "generalPath (\<lambda>img opts. b) True 0 exRoi 3 2 exData 3 2 =
           (Some (resultString True 0 exRoi 3 2 3 2 20 20 b 0 1),
            [MeasureWhiteMargins,
             ReadBarcode (scaledImage (take (nat 43 * nat 41)
                            (fst (addWhiteBorderPerSide exData 3 2 20 20 20 19))) 43 41 1)
                         (generalOptions True),
             Attempt b])"
proof -
  let ?m = "\<lparr>m_top = 0, m_bottom = 1, m_left = 0, m_right = 0\<rparr>"
  let ?B = "fst (addWhiteBorderPerSide exData 3 2 20 20 20 19)"
  have base: "addWhiteBorderPerSide exData 3 2 (max 0 (20 - m_left ?m)) (max 0 (20 - m_top ?m))
                 (max 0 (20 - m_right ?m)) (max 0 (20 - m_bottom ?m)) = (?B, 43, 41)"
    using perSide_dims [of exData 3 2 20 20 20 19] by (simp add: prod_eq_iff)
  have at: "attempt (\<lambda>img opts. b) (scaledImage (take (nat 43 * nat 41) ?B) 43 41 1) (generalOptions True) 0 1 initLocals
            = (if isValid b then initLocals\<lparr>barcode := b\<rparr>
            else initLocals\<lparr>barcode := b, bestInvalid := b, haveInvalid := True,
                             bestInvalidPad := 0, bestInvalidScale := 1\<rparr>,
            [ReadBarcode (scaledImage (take (nat 43 * nat 41) ?B) 43 41 1) (generalOptions True), Attempt b])"
    by (rule attempt_const [OF assms])
  show ?thesis
    using generalPath_first [where rd = "\<lambda>img opts. b" and th = True and rot = 0 and roi = exRoi
        and cropW = 3 and cropH = 2,
        OF ex_margins ex_tq base ex_pads border_zero ex_scales at] assms
    by simp
qed

lemma ex_general_low:
  assumes "format b = QRCode" and "errorType b \<noteq> Format"
  shows "generalPath (\<lambda>img opts. b) False 0 exRoi 3 2 exData 3 2 =
           (Some (resultString False 0 exRoi 3 2 3 2 14 14 b 0 1),
            [MeasureWhiteMargins,
             ReadBarcode (scaledImage (take (nat 31 * nat 29)
                            (fst (addWhiteBorderPerSide exData 3 2 14 14 14 13))) 31 29 1)
                         (generalOptions False),
             Attempt b])"
proof -
  let ?m = "\<lparr>m_top = 0, m_bottom = 1, m_left = 0, m_right = 0\<rparr>"
  let ?B = "fst (addWhiteBorderPerSide exData 3 2 14 14 14 13)"
  have base: "addWhiteBorderPerSide exData 3 2 (max 0 (14 - m_left ?m)) (max 0 (14 - m_top ?m))
                 (max 0 (14 - m_right ?m)) (max 0 (14 - m_bottom ?m)) = (?B, 31, 29)"
    using perSide_dims [of exData 3 2 14 14 14 13] by (simp add: prod_eq_iff)
  have at: "attempt (\<lambda>img opts. b) (scaledImage (take (nat 31 * nat 29) ?B) 31 29 1)
              (generalOptions False) 0 1 initLocals
            = (if isValid b then initLocals\<lparr>barcode := b\<rparr>
               else initLocals\<lparr>barcode := b, bestInvalid := b, haveInvalid := True,
                                bestInvalidPad := 0, bestInvalidScale := 1\<rparr>,
               [ReadBarcode (scaledImage (take (nat 31 * nat 29) ?B) 31 29 1) (generalOptions False),
                Attempt b])"
    by (rule attempt_const [OF assms(1)])
  show ?thesis
    using generalPath_first [where rd = "\<lambda>img opts. b" and th = False and rot = 0 and roi = exRoi
        and cropW = 3 and cropH = 2,
        OF ex_margins ex_tq_low base ex_pads_low border_zero ex_scales_low at] assms
    by simp
qed

lemma ex_result_fe:
  "resultString True 0 exRoi 3 2 3 2 20 20 formatErrorBarcode 0 1
     = ''INVALID(Format,I) fmt=QRCode mir=0 inv=0 ori=0 len=0|0,0,0,0|0,0,0,0,0,0,0,0''"
  by code_simp

lemma low_effort_reset:
  assumes "errorType (fst (readWithRetry rd img (generalOptions False))) = Format"
  shows "barcode (fst (decodeAtScale rd False img pad scale st)) = emptyBarcode
       \<and> snd (decodeAtScale rd False img pad scale st) = snd (readWithRetry rd img (generalOptions False))"
  using assms
  by (simp add: decodeAtScale_def escalate_def attempt_def Let_def case_prod_beta)

lemma escalate_reset:
  assumes "format (barcode st) = FormatNone"
    and "errorType (fst (readWithRetry rd img (f opts))) = Format"
  shows "escalate rd True img f pad scale (opts, st, evs) = (opts', st', evs') \<Longrightarrow>
          barcode st' = emptyBarcode
        \<and> tracker st' = track (tracker st) [fst (readWithRetry rd img (f opts))]
        \<and> evs' = evs @ snd (readWithRetry rd img (f opts))"
  using assms
  by (auto simp: escalate_def attempt_def Let_def case_prod_beta tracker_def track_def)

lemma attempt_read:
  assumes "rd img opts = b" and "format b = QRCode"
  shows "attempt rd img opts pad scale initLocals =
           (if isValid b then initLocals\<lparr>barcode := b\<rparr>
            else initLocals\<lparr>barcode := b, bestInvalid := b, haveInvalid := True,
                             bestInvalidPad := pad, bestInvalidScale := scale\<rparr>,
            [ReadBarcode img opts, Attempt b])"
  using assms
  by (simp add: attempt_def readWithRetry_def retryAsQRCodeIfMicroInvalid_def Let_def initLocals_def)

lemma ex_general_high_read:
  assumes "rd (scaledImage (take (nat 43 * nat 41)
                  (fst (addWhiteBorderPerSide exData 3 2 20 20 20 19))) 43 41 1)
              (generalOptions True) = b"
    and "format b = QRCode"
  shows "generalPath rd True 0 exRoi 3 2 exData 3 2 =
           (Some (resultString True 0 exRoi 3 2 3 2 20 20 b 0 1),
            [MeasureWhiteMargins,
             ReadBarcode (scaledImage (take (nat 43 * nat 41)
                            (fst (addWhiteBorderPerSide exData 3 2 20 20 20 19))) 43 41 1)
                         (generalOptions True),
             Attempt b])"
proof -
  let ?m = "\<lparr>m_top = 0, m_bottom = 1, m_left = 0, m_right = 0\<rparr>"
  let ?B = "fst (addWhiteBorderPerSide exData 3 2 20 20 20 19)"
  have base: "addWhiteBorderPerSide exData 3 2 (max 0 (20 - m_left ?m)) (max 0 (20 - m_top ?m))
                 (max 0 (20 - m_right ?m)) (max 0 (20 - m_bottom ?m)) = (?B, 43, 41)"
    using perSide_dims [of exData 3 2 20 20 20 19] by (simp add: prod_eq_iff)
  note at = attempt_read [where rd = rd and b = b and opts = "generalOptions True" and pad = 0
      and scale = 1 and img = "scaledImage (take (nat 43 * nat 41) ?B) 43 41 1", OF assms]
  show ?thesis
    using generalPath_first [where rd = rd and th = True and rot = 0 and roi = exRoi
        and cropW = 3 and cropH = 2,
        OF ex_margins ex_tq base ex_pads border_zero ex_scales at] assms(2)
    by simp
qed

lemma rdGlobalOnly_local: "rdGlobalOnly img (generalOptions True) = formatErrorBarcode"
  by (simp add: rdGlobalOnly_def generalOptions_def defaultOptions_def)

lemma debugPadsOf_nonempty: "debugPadsOf th m bp cap \<noteq> []"
  by (simp add: debugPadsOf_def sortPads_def debugPadsPushed_def)

lemma barcode_facts:
  "format formatErrorBarcode = QRCode" "errorType formatErrorBarcode = Format"
  "\<not> isValid formatErrorBarcode"
  "format okBarcode = QRCode" "errorType okBarcode = ErrorNone" "isValid okBarcode"
  "format emptyBarcode = FormatNone" "errorType emptyBarcode = ErrorNone"
  by (simp_all add: formatErrorBarcode_def okBarcode_def emptyBarcode_def)

lemma readWithRetry_global:
  "readWithRetry rdGlobalOnly img (debugOptions True)
     = (formatErrorBarcode, [ReadBarcode img (debugOptions True), Attempt formatErrorBarcode])"
  "readWithRetry rdGlobalOnly img ((debugOptions True)\<lparr>binarizer := GlobalHistogram\<rparr>)
     = (okBarcode, [ReadBarcode img ((debugOptions True)\<lparr>binarizer := GlobalHistogram\<rparr>),
                    Attempt okBarcode])"
proof -
  have b: "binarizer (debugOptions True) = LocalAverage"
    by (simp add: debugOptions_def defaultOptions_def)
  show "readWithRetry rdGlobalOnly img (debugOptions True)
     = (formatErrorBarcode, [ReadBarcode img (debugOptions True), Attempt formatErrorBarcode])"
    by (simp add: readWithRetry_def retryAsQRCodeIfMicroInvalid_def rdGlobalOnly_def b
          barcode_facts Let_def)
  show "readWithRetry rdGlobalOnly img ((debugOptions True)\<lparr>binarizer := GlobalHistogram\<rparr>)
     = (okBarcode, [ReadBarcode img ((debugOptions True)\<lparr>binarizer := GlobalHistogram\<rparr>),
                    Attempt okBarcode])"
    by (simp add: readWithRetry_def retryAsQRCodeIfMicroInvalid_def rdGlobalOnly_def
          barcode_facts Let_def)
qed

lemma debugLoop_global:
  "attempts (snd (snd (debugLoop rdGlobalOnly True base bw bh (pad # rest) st)))
     = [formatErrorBarcode, okBarcode]"
  by (simp add: debugAttempt_def debugEscalate_def readWithRetry_global barcode_facts
        Let_def case_prod_beta)

lemma debugPath_trace:
  "\<exists>base bw bh pads. pads \<noteq> []
     \<and> snd (debugPath rd th data w h roi rot)
         = CropGray # MeasureWhiteMargins # snd (snd (debugLoop rd th base bw bh pads initDebugLocals))"
  unfolding debugPath_def Let_def case_prod_beta snd_conv
  by (intro exI conjI, rule debugPadsOf_nonempty, rule refl)

lemma debugPath_global:
  "attempts (snd (debugPath rdGlobalOnly True data w h roi rot)) = [formatErrorBarcode, okBarcode]"
proof -
  from debugPath_trace [of rdGlobalOnly True data w h roi rot] obtain base bw bh pads
    where p: "pads \<noteq> []"
      and s: "snd (debugPath rdGlobalOnly True data w h roi rot)
         = CropGray # MeasureWhiteMargins
             # snd (snd (debugLoop rdGlobalOnly True base bw bh pads initDebugLocals))"
    by blast
  from p obtain q qs where "pads = q # qs" by (cases pads) auto
  then show ?thesis
    unfolding s using debugLoop_global [of base bw bh q qs initDebugLocals] by simp
qed

lemma ex_debug_valid:
  "decodeGrayDebug rd True (Some exData) 3 2 0 0 0 3 2 th =
     (Some (fst (debugPath rd th exData 3 2 exRoi 0)), snd (debugPath rd th exData 3 2 exRoi 0))"
  by (simp add: decodeGrayDebug_def clampRect_def clamp_def exData_def exRoi_def case_prod_beta Let_def)

lemma escalate_fe:
  "escalate rdFormatError True exImage (\<lambda>opts. opts\<lparr>binarizer := GlobalHistogram\<rparr>) 0 1
      (generalOptions True, initLocals, [])
   = (generalOptions True\<lparr>binarizer := GlobalHistogram\<rparr>,
      initLocals\<lparr>barcode := emptyBarcode, bestInvalid := formatErrorBarcode, haveInvalid := True,
                   bestInvalidPad := 0, bestInvalidScale := 1\<rparr>,
      [ReadBarcode exImage (generalOptions True\<lparr>binarizer := GlobalHistogram\<rparr>),
       Attempt formatErrorBarcode])"
  by (simp add: escalate_def attempt_def readWithRetry_fe Let_def initLocals_def
        formatErrorBarcode_def emptyBarcode_def)

text \<open>
  Claim C1, evaluated on the code. The primitive reports a QR symbol with a format error
  under the default binarizer and decodes a valid symbol under the global histogram. At
  high effort the primary entry point calls it once: the format-error result of that first
  attempt is not reset (the reset of line 725 is guarded by the effort flag), no
  escalation step runs, the loops end, and the diagnostic string of that result is
  returned. The sibling paths reset: on the same input the diagnostic entry point resets
  the first result and its next step decodes the valid symbol, and an escalation step of
  the primary entry point resets a format error.
\<close>

theorem format_error_first_attempt_kept:
  "errorType formatErrorBarcode = Format
   \<and> decodeGray rdGlobalOnly True (Some exData) 3 2 0 0 0 3 2 True =
       (Some ''INVALID(Format,I) fmt=QRCode mir=0 inv=0 ori=0 len=0|0,0,0,0|0,0,0,0,0,0,0,0'',
        [CropGray, MeasureWhiteMargins,
         ReadBarcode (scaledImage (take (nat 43 * nat 41)
                        (fst (addWhiteBorderPerSide exData 3 2 20 20 20 19))) 43 41 1)
                     (generalOptions True),
         Attempt formatErrorBarcode])
   \<and> attempts (snd (decodeGrayDebug rdGlobalOnly True (Some exData) 3 2 0 0 0 3 2 True))
       = [formatErrorBarcode, okBarcode]
   \<and> barcode (fst (snd (escalate rdFormatError True exImage
                           (\<lambda>opts. opts\<lparr>binarizer := GlobalHistogram\<rparr>) 0 1
                           (generalOptions True, initLocals, [])))) = emptyBarcode"
proof -
  have f: "format formatErrorBarcode = QRCode" by (simp add: formatErrorBarcode_def)
  have 1: "errorType formatErrorBarcode = Format" by (simp add: formatErrorBarcode_def)
  have 2: "decodeGray rdGlobalOnly True (Some exData) 3 2 0 0 0 3 2 True =
       (Some ''INVALID(Format,I) fmt=QRCode mir=0 inv=0 ori=0 len=0|0,0,0,0|0,0,0,0,0,0,0,0'',
        [CropGray, MeasureWhiteMargins,
         ReadBarcode (scaledImage (take (nat 43 * nat 41)
                        (fst (addWhiteBorderPerSide exData 3 2 20 20 20 19))) 43 41 1)
                     (generalOptions True),
         Attempt formatErrorBarcode])"
    using ex_general_high_read [where rd = rdGlobalOnly and b = formatErrorBarcode,
            OF rdGlobalOnly_local f]
    by (simp add: ex_valid ex_primary ex_result_fe)
  have 3: "attempts (snd (decodeGrayDebug rdGlobalOnly True (Some exData) 3 2 0 0 0 3 2 True))
       = [formatErrorBarcode, okBarcode]"
    by (simp add: ex_debug_valid debugPath_global)
  have 4: "barcode (fst (snd (escalate rdFormatError True exImage
                           (\<lambda>opts. opts\<lparr>binarizer := GlobalHistogram\<rparr>) 0 1
                           (generalOptions True, initLocals, [])))) = emptyBarcode"
    by (simp add: escalate_fe)
  from 1 2 3 4 show ?thesis by blast
qed

section \<open>The returned string\<close>

lemma ex_result_pipe:
  "resultString True 0 exRoi 3 2 3 2 20 20 pipeBarcode 0 1 = ''a|b|0,0,0,0|0,0,0,0,0,0,0,0''"
  by code_simp

lemma ex_result_pipe_low:
  "resultString False 0 exRoi 3 2 3 2 14 14 pipeBarcode 0 1 = ''a|b|0,0,0,0|0,0,0,0,0,0,0,0''"
  by code_simp

text \<open>
  Claim C2, evaluated on the code: when the primitive decodes a valid symbol whose payload
  is \<open>a|b\<close>, the primary entry point returns the payload unchanged in front of the box
  and the quadrilateral, at high and at low effort, so the returned string holds three
  pipe characters, one of them inside the text field.
\<close>

theorem valid_payload_pipe_kept:
  "fst (decodeGray rdPipe True (Some exData) 3 2 0 0 0 3 2 True)
     = Some ''a|b|0,0,0,0|0,0,0,0,0,0,0,0''
   \<and> fst (decodeGray rdPipe True (Some exData) 3 2 0 0 0 3 2 False)
     = Some ''a|b|0,0,0,0|0,0,0,0,0,0,0,0''
   \<and> trimPipes ''a|b'' = ''a/b''"
proof -
  have f: "format pipeBarcode = QRCode" "errorType pipeBarcode \<noteq> Format"
    by (simp_all add: pipeBarcode_def emptyBarcode_def)
  have t: "trimPipes ''a|b'' = ''a/b''" by (simp add: trimPipes_def)
  from ex_general_high [OF f(1)] ex_general_low [OF f] t show ?thesis
    by (simp add: ex_valid ex_primary rdPipe_def ex_result_pipe ex_result_pipe_low)
qed

section \<open>The synthetic fast path\<close>

lemma readWithRetry_events:
  "e \<in> set (snd (readWithRetry rd img opts)) \<Longrightarrow>
     e = ReadBarcode img opts \<or> e = ReadBarcode img (opts\<lparr>formats := {QRCode}\<rparr>) \<or> (\<exists>b. e = Attempt b)"
  by (auto simp: readWithRetry_def retryAsQRCodeIfMicroInvalid_def Let_def split: if_splits)

lemma tryPure_events:
  "e \<in> set (snd (tryPure rd buf bufW bufH th bin)) \<Longrightarrow>
     e \<noteq> MeasureWhiteMargins \<and> e \<noteq> CropGray \<and> (\<forall>img opts. e = ReadBarcode img opts \<longrightarrow> isPure opts)"
  unfolding tryPure_def Let_def
  by (drule readWithRetry_events) auto

lemma tryPure_attempts:
  "attempts (snd (tryPure rd buf bufW bufH th bin)) = [fst (tryPure rd buf bufW bufH th bin)]"
  unfolding tryPure_def Let_def by (rule attempts_readWithRetry)

lemma syntheticLoop_events:
  "e \<in> set (snd (syntheticLoop rd th rotW rotH cands)) \<Longrightarrow>
     e \<noteq> MeasureWhiteMargins \<and> e \<noteq> CropGray \<and> (\<forall>img opts. e = ReadBarcode img opts \<longrightarrow> isPure opts)"
proof (induction cands)
  case Nil
  then show ?case by simp
next
  case (Cons c cands)
  obtain pad buf bufW bufH where c: "c = (pad, buf, bufW, bufH)" by (cases c) auto
  from Cons.prems consider
      "e \<in> set (snd (tryPure rd buf bufW bufH th FixedThreshold))"
    | "e \<in> set (snd (tryPure rd buf bufW bufH th LocalAverage))"
    | "e \<in> set (snd (syntheticLoop rd th rotW rotH cands))"
    unfolding c by (auto simp: Let_def case_prod_beta split: if_splits)
  then show ?case
    using tryPure_events Cons.IH by cases blast+
qed

lemma syntheticLoop_none:
  assumes "\<forall>b \<in> set (attempts (snd (syntheticLoop rd th rotW rotH cands))). format b = FormatNone"
  shows "fst (syntheticLoop rd th rotW rotH cands) = None"
  using assms
proof (induction cands)
  case Nil
  then show ?case by simp
next
  case (Cons c cands)
  obtain pad buf bufW bufH where c: "c = (pad, buf, bufW, bufH)" by (cases c) auto
  let ?f = "tryPure rd buf bufW bufH th FixedThreshold"
  let ?l = "tryPure rd buf bufW bufH th LocalAverage"
  show ?case
  proof (cases "format (fst ?f) = FormatNone")
    case False
    with Cons.prems show ?thesis
      unfolding c by (simp add: Let_def case_prod_beta attempts_append tryPure_attempts)
  next
    case f: True
    show ?thesis
    proof (cases "format (fst ?l) = FormatNone")
      case False
      with Cons.prems f show ?thesis
        unfolding c by (simp add: Let_def case_prod_beta attempts_append tryPure_attempts)
    next
      case True
      with Cons.prems f have "\<forall>b \<in> set (attempts (snd (syntheticLoop rd th rotW rotH cands))). format b = FormatNone"
        unfolding c by (simp add: Let_def case_prod_beta attempts_append tryPure_attempts)
      from Cons.IH [OF this] f True show ?thesis
        unfolding c by (simp add: Let_def case_prod_beta)
    qed
  qed
qed

lemma generalPath_starts: "hd (snd (generalPath rd th rot roi cropW cropH rotated rotW rotH)) = MeasureWhiteMargins"
  by (simp add: generalPath_def Let_def case_prod_beta)

text \<open>
  Claim C3. Take a valid input on which the synthetic condition holds (full region of
  interest, rotation 0, square rotated buffer of side at most 900, classified synthetic)
  and on which every attempt of the fast path detects no format. With the effort flag set,
  the entry point returns the absence of a result and its trace is the crop followed by
  the fast-path events only: no margin measurement, and every call of the primitive has
  \<open>isPure\<close> set. Without the flag, the result is the one of the general pipeline, whose
  trace, starting with the margin measurement, follows the fast-path events.
\<close>

theorem synthetic_fast_path_no_detection:
  assumes "0 < w" "0 < h" "nat w * nat h \<le> length data" "pinned"
    and "clampRect \<lparr>r_left = roiLeft, r_top = roiTop, r_right = roiRight, r_bottom = roiBottom\<rparr> w h = roi"
    and "r_right roi \<noteq> r_left roi" "r_bottom roi \<noteq> r_top roi"
    and "cropGray data w h roi = (cropped, cropW, cropH)"
    and "rotateGray cropped cropW cropH rotationDegrees = (rotated, rotW, rotH)"
    and "syntheticCondition roi w h (normRot rotationDegrees) rotated rotW rotH"
    and "syntheticLoop rd th rotW rotH (syntheticCandidates rotated rotW rotH) = (res, evs)"
    and "\<forall>b \<in> set (attempts evs). format b = FormatNone"
  shows "(th \<longrightarrow>
            decodeGray rd pinned (Some data) w h rotationDegrees roiLeft roiTop roiRight roiBottom th
              = (None, CropGray # evs))
       \<and> (\<not> th \<longrightarrow>
            decodeGray rd pinned (Some data) w h rotationDegrees roiLeft roiTop roiRight roiBottom th
              = (fst (generalPath rd th (normRot rotationDegrees) roi cropW cropH rotated rotW rotH),
                 CropGray # evs
                   @ snd (generalPath rd th (normRot rotationDegrees) roi cropW cropH rotated rotW rotH)))
       \<and> MeasureWhiteMargins \<notin> set evs
       \<and> (\<forall>img opts. ReadBarcode img opts \<in> set evs \<longrightarrow> isPure opts)
       \<and> hd (snd (generalPath rd th (normRot rotationDegrees) roi cropW cropH rotated rotW rotH))
           = MeasureWhiteMargins"
proof -
  have none: "res = None"
    using syntheticLoop_none [of rd th rotW rotH "syntheticCandidates rotated rotW rotH"] assms(11,12)
    by simp
  have v: "decodeGray rd pinned (Some data) w h rotationDegrees roiLeft roiTop roiRight roiBottom th
             = primaryPath rd th data w h roi rotationDegrees"
    using assms(1-7) by (simp add: decodeGray_def Let_def)
  have p: "primaryPath rd th data w h roi rotationDegrees =
             (if th then (None, CropGray # evs)
              else (fst (generalPath rd th (normRot rotationDegrees) roi cropW cropH rotated rotW rotH),
                    CropGray # evs
                      @ snd (generalPath rd th (normRot rotationDegrees) roi cropW cropH rotated rotW rotH)))"
    unfolding primaryPath_def Let_def assms(8,9) prod.case
    using assms(10,11) none by (simp add: case_prod_beta)
  have e: "MeasureWhiteMargins \<notin> set evs \<and> (\<forall>img opts. ReadBarcode img opts \<in> set evs \<longrightarrow> isPure opts)"
    using syntheticLoop_events [of _ rd th rotW rotH "syntheticCandidates rotated rotW rotH"] assms(11)
    by auto
  show ?thesis
  proof (cases th)
    case True
    with v p e generalPath_starts show ?thesis by simp
  next
    case False
    with v p e generalPath_starts show ?thesis by simp
  qed
qed

lemma readWithRetry_none:
  "readWithRetry rdNone img opts = (emptyBarcode, [ReadBarcode img opts, Attempt emptyBarcode])"
  by (simp add: readWithRetry_def retryAsQRCodeIfMicroInvalid_def rdNone_def emptyBarcode_def Let_def)

lemma syntheticLoop_rdNone:
  "\<forall>b \<in> set (attempts (snd (syntheticLoop rdNone th rotW rotH cands))). format b = FormatNone"
proof (induction cands)
  case Nil
  then show ?case by simp
next
  case (Cons c cands)
  obtain pad buf bufW bufH where c: "c = (pad, buf, bufW, bufH)" by (cases c) auto
  have t: "\<And>bin. tryPure rdNone buf bufW bufH th bin =
             (emptyBarcode, [ReadBarcode \<lparr>iv_data = buf, iv_width = bufW, iv_height = bufH\<rparr>
                (defaultOptions\<lparr>formats := {QRCode, MicroQRCode}, isPure := True, tryHarder := th,
                    tryRotate := False, tryDownscale := False, tryInvert := th,
                    returnErrors := True, binarizer := bin\<rparr>), Attempt emptyBarcode])"
    by (simp add: tryPure_def readWithRetry_none)
  have f: "format emptyBarcode = FormatNone" by (simp add: emptyBarcode_def)
  show ?case
    unfolding c using Cons.IH by (simp add: t f Let_def case_prod_beta attempts_append)
qed

lemma one_crop: "cropGray [0] 1 1 \<lparr>r_left = 0, r_top = 0, r_right = 1, r_bottom = 1\<rparr> = ([0], 1, 1)"
  by code_simp

lemma one_rot: "rotateGray [0] 1 1 0 = ([0], 1, 1)"
  by code_simp

lemma one_syn:
  "syntheticCondition \<lparr>r_left = 0, r_top = 0, r_right = 1, r_bottom = 1\<rparr> 1 1 (normRot 0) [0] 1 1"
  by code_simp

theorem synthetic_fast_path_no_detection_witness:
  "decodeGray rdNone True (Some [0]) 1 1 0 0 0 1 1 True
     = (None, CropGray # snd (syntheticLoop rdNone True 1 1 (syntheticCandidates [0] 1 1)))
   \<and> decodeGray rdNone True (Some [0]) 1 1 0 0 0 1 1 False
     = (fst (generalPath rdNone False (normRot 0) \<lparr>r_left = 0, r_top = 0, r_right = 1, r_bottom = 1\<rparr> 1 1 [0] 1 1),
        CropGray # snd (syntheticLoop rdNone False 1 1 (syntheticCandidates [0] 1 1))
          @ snd (generalPath rdNone False (normRot 0) \<lparr>r_left = 0, r_top = 0, r_right = 1, r_bottom = 1\<rparr> 1 1 [0] 1 1))"
proof -
  let ?roi = "\<lparr>r_left = 0, r_top = 0, r_right = 1, r_bottom = 1\<rparr>"
  have c: "clampRect \<lparr>r_left = 0, r_top = 0, r_right = 1, r_bottom = 1\<rparr> 1 1 = ?roi"
    by (simp add: clampRect_def clamp_def)
  have l: "\<And>th. syntheticLoop rdNone th 1 1 (syntheticCandidates [0] 1 1)
             = (fst (syntheticLoop rdNone th 1 1 (syntheticCandidates [0] 1 1)),
                snd (syntheticLoop rdNone th 1 1 (syntheticCandidates [0] 1 1)))"
    by (rule prod.collapse [symmetric])
  have p1: "(0::int) < 1" by simp
  have p3: "nat 1 * nat 1 \<le> length [0::byte]" by simp
  have p6: "r_right ?roi \<noteq> r_left ?roi" by simp
  have p7: "r_bottom ?roi \<noteq> r_top ?roi" by simp
  have t: "True \<longrightarrow> decodeGray rdNone True (Some [0]) 1 1 0 0 0 1 1 True
     = (None, CropGray # snd (syntheticLoop rdNone True 1 1 (syntheticCandidates [0] 1 1)))"
    by (rule conjunct1 [OF synthetic_fast_path_no_detection
          [OF p1 p1 p3 TrueI c p6 p7 one_crop one_rot one_syn l [of True] syntheticLoop_rdNone]])
  have f: "\<not> False \<longrightarrow> decodeGray rdNone True (Some [0]) 1 1 0 0 0 1 1 False
     = (fst (generalPath rdNone False (normRot 0) ?roi 1 1 [0] 1 1),
        CropGray # snd (syntheticLoop rdNone False 1 1 (syntheticCandidates [0] 1 1))
          @ snd (generalPath rdNone False (normRot 0) ?roi 1 1 [0] 1 1))"
    by (rule conjunct1 [OF conjunct2 [OF synthetic_fast_path_no_detection
          [OF p1 p1 p3 TrueI c p6 p7 one_crop one_rot one_syn l [of False] syntheticLoop_rdNone]]])
  from t f show ?thesis by blast
qed

end
